theory Spec2Isabelle
  imports Complex_Main "HOL-Library.Word"
begin

section \<open>OpenGL enumerators\<close>

type_synonym GLint = "32 word"
type_synonym GLuint = "32 word"

text \<open>Modelled from the spec: the \<^verbatim>\<open>GL_*\<close> enumerators used by
  \<^verbatim>\<open>GLTextures.cpp\<close> are macros of the OpenGL header, which is not among the
  sources; they carry the values the OpenGL registry assigns them.\<close>

definition GL_RED :: GLint where "GL_RED = 6403"
definition GL_RGB :: GLint where "GL_RGB = 6407"
definition GL_RGBA :: GLint where "GL_RGBA = 6408"

definition GL_UNSIGNED_BYTE :: GLuint where "GL_UNSIGNED_BYTE = 5121"
definition GL_FLOAT :: GLuint where "GL_FLOAT = 5126"
definition GL_HALF_FLOAT :: GLuint where "GL_HALF_FLOAT = 5131"

definition GL_R8 :: GLint where "GL_R8 = 33321"
definition GL_R16F :: GLint where "GL_R16F = 33325"
definition GL_R32F :: GLint where "GL_R32F = 33326"
definition GL_RGB8 :: GLint where "GL_RGB8 = 32849"
definition GL_RGB16F :: GLint where "GL_RGB16F = 34843"
definition GL_RGB32F :: GLint where "GL_RGB32F = 34837"
definition GL_RGBA8 :: GLint where "GL_RGBA8 = 32856"
definition GL_RGBA16F :: GLint where "GL_RGBA16F = 34842"
definition GL_RGBA32F :: GLint where "GL_RGBA32F = 34836"

lemmas GL_defs =
  GL_RED_def GL_RGB_def GL_RGBA_def GL_UNSIGNED_BYTE_def GL_FLOAT_def GL_HALF_FLOAT_def
  GL_R8_def GL_R16F_def GL_R32F_def GL_RGB8_def GL_RGB16F_def GL_RGB32F_def
  GL_RGBA8_def GL_RGBA16F_def GL_RGBA32F_def

section \<open>Internal-format derivation (\<^verbatim>\<open>GLTextures.cpp\<close>)\<close>

text \<open>\<^verbatim>\<open>getInternalFormat\<close>: the local \<^verbatim>\<open>internalFormat\<close> starts as
  \<^verbatim>\<open>glFormat\<close> and is overwritten by whichever of the nine assignments fire, in the
  order of the source.\<close>

definition getInternalFormat :: "GLint \<Rightarrow> GLuint \<Rightarrow> GLint" where
  "getInternalFormat glFormat glType =
    (let internalFormat = glFormat;
         internalFormat =
           (if glFormat = GL_RED then
              (let i = (if glType = GL_FLOAT then GL_R32F else internalFormat);
                   i = (if glType = GL_HALF_FLOAT then GL_R16F else i);
                   i = (if glType = GL_UNSIGNED_BYTE then GL_R8 else i)
               in i)
            else internalFormat);
         internalFormat =
           (if glFormat = GL_RGB then
              (let i = (if glType = GL_FLOAT then GL_RGB32F else internalFormat);
                   i = (if glType = GL_HALF_FLOAT then GL_RGB16F else i);
                   i = (if glType = GL_UNSIGNED_BYTE then GL_RGB8 else i)
               in i)
            else internalFormat);
         internalFormat =
           (if glFormat = GL_RGBA then
              (let i = (if glType = GL_FLOAT then GL_RGBA32F else internalFormat);
                   i = (if glType = GL_HALF_FLOAT then GL_RGBA16F else i);
                   i = (if glType = GL_UNSIGNED_BYTE then GL_RGBA8 else i)
               in i)
            else internalFormat)
     in internalFormat)"

section \<open>Render items (\<^verbatim>\<open>GLRenderLists.cpp\<close>)\<close>

text \<open>The objects a render item points to. Their classes are declared in headers that are
  not among the sources; the records hold the members \<^verbatim>\<open>GLRenderLists.cpp\<close> reads.
  A raw pointer is an \<open>option\<close>: \<open>None\<close> is \<^verbatim>\<open>nullptr\<close>, \<open>Some x\<close> points to \<open>x\<close>.
  The id of an object is converted to \<^verbatim>\<open>int\<close> where an item takes it; the model has
  it as an integer from the start.\<close>

record Object3D =
  Object3D_id :: int
  Object3D_renderOrder :: int

record BufferGeometry =
  BufferGeometry_id :: int

record Material =
  Material_id :: int
  Material_uuid :: string
  Material_transparent :: bool

record GLProgram =
  GLProgram_id :: int

record GeometryGroup =
  GeometryGroup_start :: int
  GeometryGroup_count :: int
  GeometryGroup_materialIndex :: int

text \<open>\<^verbatim>\<open>struct RenderItem\<close>, in the order of the aggregate initialiser of
  \<^verbatim>\<open>getNextRenderItem\<close>. The member \<^verbatim>\<open>z\<close> is a \<^verbatim>\<open>float\<close>; the model holds its
  value as a real number, so a NaN depth is outside the model.\<close>

record RenderItem =
  id' :: int
  object :: "Object3D option"
  geometry :: "BufferGeometry option"
  material :: "Material option"
  program :: "GLProgram option"
  groupOrder :: int
  renderOrder :: int
  z :: real
  group' :: "GeometryGroup option"

text \<open>The two comparators. \<^verbatim>\<open>a->material->id\<close> dereferences the material pointer, which
  is undefined for a null pointer; the model reads it with \<open>the\<close>, which says nothing
  about \<open>None\<close>.\<close>

definition painterSortStable :: "RenderItem \<Rightarrow> RenderItem \<Rightarrow> bool" where
  "painterSortStable a b =
    (if groupOrder a \<noteq> groupOrder b then groupOrder b > groupOrder a
     else if renderOrder a \<noteq> renderOrder b then renderOrder b > renderOrder a
     else if program a \<noteq> None \<and> program b \<noteq> None
             \<and> GLProgram_id (the (program a)) \<noteq> GLProgram_id (the (program b))
       then GLProgram_id (the (program b)) > GLProgram_id (the (program a))
     else if Material_id (the (material a)) \<noteq> Material_id (the (material b))
       then Material_id (the (material b)) > Material_id (the (material a))
     else if z a \<noteq> z b then z b > z a
     else id' b > id' a)"

definition reversePainterSortStable :: "RenderItem \<Rightarrow> RenderItem \<Rightarrow> bool" where
  "reversePainterSortStable a b =
    (if groupOrder a \<noteq> groupOrder b then groupOrder b > groupOrder a
     else if renderOrder a \<noteq> renderOrder b then renderOrder b > renderOrder a
     else if program a \<noteq> None \<and> program b \<noteq> None
             \<and> GLProgram_id (the (program a)) \<noteq> GLProgram_id (the (program b))
       then GLProgram_id (the (program b)) > GLProgram_id (the (program a))
     else if Material_id (the (material a)) \<noteq> Material_id (the (material b))
       then Material_id (the (material b)) > Material_id (the (material a))
     else if z a \<noteq> z b then z b > z a
     else id' b > id' a)"

text \<open>\<^verbatim>\<open>std::stable_sort\<close> with a comparator \<open>cmp\<close>. The C++ standard asks that
  \<open>cmp\<close> be a strict weak order on the elements: irreflexive, transitive, and with a
  transitive "neither before the other". Then the result is determined: the elements in
  order, those none of which is before the other in the order they had. \<open>insertion_sort\<close>
  computes this list: it puts an element behind the elements that are before it and in
  front of the first element that is not.\<close>

definition strict_weak_order :: "('a \<Rightarrow> 'a \<Rightarrow> bool) \<Rightarrow> 'a list \<Rightarrow> bool" where
  "strict_weak_order cmp xs \<longleftrightarrow>
     (\<forall>a\<in>set xs. \<not> cmp a a)
   \<and> (\<forall>a\<in>set xs. \<forall>b\<in>set xs. \<forall>c\<in>set xs. cmp a b \<longrightarrow> cmp b c \<longrightarrow> cmp a c)
   \<and> (\<forall>a\<in>set xs. \<forall>b\<in>set xs. \<forall>c\<in>set xs.
         \<not> cmp a b \<and> \<not> cmp b a \<longrightarrow> \<not> cmp b c \<and> \<not> cmp c b \<longrightarrow> \<not> cmp a c \<and> \<not> cmp c a)"

fun insert_stable :: "('a \<Rightarrow> 'a \<Rightarrow> bool) \<Rightarrow> 'a \<Rightarrow> 'a list \<Rightarrow> 'a list" where
  "insert_stable cmp x [] = [x]"
| "insert_stable cmp x (y # ys) =
     (if cmp y x then y # insert_stable cmp x ys else x # y # ys)"

definition insertion_sort :: "('a \<Rightarrow> 'a \<Rightarrow> bool) \<Rightarrow> 'a list \<Rightarrow> 'a list" where
  "insertion_sort cmp xs = foldr (insert_stable cmp) xs []"

text \<open>Where \<open>cmp\<close> is not a strict weak order on the elements (the comparators below are
  none on items with and without a program, mixed), the standard says nothing of the order
  of the result, and the library's implementation is not among the sources. The model takes
  the order the library leaves the elements in as a parameter \<open>perm\<close>: the positions of
  the old list in the order of the new one. A \<open>perm\<close> that is not a permutation of the
  positions is read as the one that leaves the list as it is.\<close>

definition arrange :: "nat list \<Rightarrow> 'a list \<Rightarrow> 'a list" where
  "arrange perm xs = (if sort perm = [0..<length xs] then map ((!) xs) perm else xs)"

definition stable_sort :: "nat list \<Rightarrow> ('a \<Rightarrow> 'a \<Rightarrow> bool) \<Rightarrow> 'a list \<Rightarrow> 'a list" where
  "stable_sort perm cmp xs =
     (if strict_weak_order cmp xs then insertion_sort cmp xs else arrange perm xs)"

section \<open>The render list\<close>

text \<open>\<^verbatim>\<open>GLRenderList\<close>. The three vectors hold \<^verbatim>\<open>std::shared_ptr<RenderItem>\<close>; several
  of them may point to one item, and \<^verbatim>\<open>getNextRenderItem\<close> and \<^verbatim>\<open>finish\<close> write
  through them. So the items live in a store, a shared pointer is the position of its item
  in the store, and \<^verbatim>\<open>std::make_shared\<close> appends a new item to the store.\<close>

type_synonym item_ptr = nat

record GLRenderList =
  store :: "RenderItem list"
  renderItems :: "item_ptr list"
  opaque :: "item_ptr list"
  transparent :: "item_ptr list"
  renderItemsIndex :: nat

text \<open>The member \<^verbatim>\<open>properties\<close> is a reference to the renderer's property tables, whose
  class is not among the sources. \<^verbatim>\<open>getNextRenderItem\<close> reads one thing from it:
  \<^verbatim>\<open>properties.materialProperties.get(material->uuid).program\<close>, the program linked for
  a material, null when there is none. The model takes this lookup as the function
  \<open>props\<close> from a material's uuid to its program.\<close>

type_synonym GLProperties = "string \<Rightarrow> GLProgram option"

definition init :: "GLRenderList \<Rightarrow> GLRenderList" where
  "init s = s\<lparr>renderItemsIndex := 0, renderItems := [], opaque := [], transparent := []\<rparr>"

definition getNextRenderItem ::
  "GLProperties \<Rightarrow> Object3D \<Rightarrow> BufferGeometry \<Rightarrow> Material \<Rightarrow> int \<Rightarrow> real
     \<Rightarrow> GeometryGroup option \<Rightarrow> GLRenderList \<Rightarrow> item_ptr \<times> GLRenderList" where
  "getNextRenderItem props obj geom mat gOrder depth grp s =
    (let materialProperties_program = props (Material_uuid mat) in
     if renderItemsIndex s \<ge> length (renderItems s) then
       (let renderItem = length (store s);
            new = \<lparr>id' = Object3D_id obj,
                   object = Some obj,
                   geometry = Some geom,
                   material = Some mat,
                   program = materialProperties_program,
                   groupOrder = gOrder,
                   renderOrder = Object3D_renderOrder obj,
                   z = depth,
                   group' = grp\<rparr>
        in (renderItem,
            s\<lparr>store := store s @ [new],
              renderItems := renderItems s @ [renderItem],
              renderItemsIndex := renderItemsIndex s + 1\<rparr>))
     else
       (let renderItem = renderItems s ! renderItemsIndex s;
            r = store s ! renderItem;
            r = r\<lparr>id' := Object3D_id obj\<rparr>;
            r = r\<lparr>object := Some obj\<rparr>;
            r = r\<lparr>geometry := Some geom\<rparr>;
            r = r\<lparr>material := Some mat\<rparr>;
            r = (if materialProperties_program \<noteq> None
                 then r\<lparr>program := materialProperties_program\<rparr> else r);
            r = r\<lparr>groupOrder := gOrder\<rparr>;
            r = r\<lparr>renderOrder := Object3D_renderOrder obj\<rparr>;
            r = r\<lparr>z := depth\<rparr>;
            r = r\<lparr>group' := grp\<rparr>
        in (renderItem,
            s\<lparr>store := (store s)[renderItem := r],
              renderItemsIndex := renderItemsIndex s + 1\<rparr>)))"

definition push ::
  "GLProperties \<Rightarrow> Object3D \<Rightarrow> BufferGeometry \<Rightarrow> Material \<Rightarrow> int \<Rightarrow> real
     \<Rightarrow> GeometryGroup option \<Rightarrow> GLRenderList \<Rightarrow> GLRenderList" where
  "push props obj geom mat gOrder depth grp s =
    (let (renderItem, s) = getNextRenderItem props obj geom mat gOrder depth grp s in
     if Material_transparent mat
     then s\<lparr>transparent := transparent s @ [renderItem]\<rparr>
     else s\<lparr>opaque := opaque s @ [renderItem]\<rparr>)"

definition unshift ::
  "GLProperties \<Rightarrow> Object3D \<Rightarrow> BufferGeometry \<Rightarrow> Material \<Rightarrow> int \<Rightarrow> real
     \<Rightarrow> GeometryGroup option \<Rightarrow> GLRenderList \<Rightarrow> GLRenderList" where
  "unshift props obj geom mat gOrder depth grp s =
    (let (renderItem, s) = getNextRenderItem props obj geom mat gOrder depth grp s in
     if Material_transparent mat
     then s\<lparr>transparent := renderItem # transparent s\<rparr>
     else s\<lparr>opaque := renderItem # opaque s\<rparr>)"

text \<open>\<^verbatim>\<open>sort\<close>: the comparators receive the shared pointers and read the items behind
  them. \<open>perm_opaque\<close> and \<open>perm_transparent\<close> are the orders the library leaves the two
  buckets in where the comparator is not a strict weak order on them.\<close>

definition sort' :: "nat list \<Rightarrow> nat list \<Rightarrow> GLRenderList \<Rightarrow> GLRenderList" where
  "sort' perm_opaque perm_transparent s =
    (let s = (if length (opaque s) > 1
              then s\<lparr>opaque := stable_sort perm_opaque
                                  (\<lambda>a b. painterSortStable (store s ! a) (store s ! b)) (opaque s)\<rparr>
              else s);
         s = (if length (transparent s) > 1
              then s\<lparr>transparent := stable_sort perm_transparent
                                  (\<lambda>a b. reversePainterSortStable (store s ! a) (store s ! b))
                                  (transparent s)\<rparr>
              else s)
     in s)"

text \<open>\<^verbatim>\<open>finish\<close>: the loop runs \<open>i\<close> from \<^verbatim>\<open>renderItemsIndex\<close> to
  \<^verbatim>\<open>renderItems.size()\<close> and leaves at the first item whose id is \<open>-1\<close>.\<close>

definition clear_item :: "RenderItem \<Rightarrow> RenderItem" where
  "clear_item r = r\<lparr>id' := -1, object := None, geometry := None, material := None,
                    program := None, group' := None\<rparr>"

function finish_loop :: "nat \<Rightarrow> nat \<Rightarrow> GLRenderList \<Rightarrow> GLRenderList" where
  "finish_loop i il s =
    (if i < il then
       (let renderItem = renderItems s ! i in
        if id' (store s ! renderItem) = -1 then s
        else finish_loop (i + 1) il
               (s\<lparr>store := (store s)[renderItem := clear_item (store s ! renderItem)]\<rparr>))
     else s)"
  by pat_completeness auto
termination
  by (relation "measure (\<lambda>(i, il, s). il - i)") auto

declare finish_loop.simps [simp del]

definition finish :: "GLRenderList \<Rightarrow> GLRenderList" where
  "finish s = finish_loop (renderItemsIndex s) (length (renderItems s)) s"

section \<open>Sequences of calls on a render list\<close>

text \<open>The arguments of one \<^verbatim>\<open>push\<close> or \<^verbatim>\<open>unshift\<close>, together with the
  property lookup the call sees: the renderer may link a program between two calls. A
  \<^verbatim>\<open>sort\<close> comes with the two orders of the library that \<open>sort'\<close> takes.\<close>

record draw =
  draw_props :: GLProperties
  draw_object :: Object3D
  draw_geometry :: BufferGeometry
  draw_material :: Material
  draw_groupOrder :: int
  draw_z :: real
  draw_group :: "GeometryGroup option"

datatype call = Push draw | Unshift draw | Sort "nat list" "nat list" | Finish

fun do_call :: "call \<Rightarrow> GLRenderList \<Rightarrow> GLRenderList" where
  "do_call (Push d) s =
     push (draw_props d) (draw_object d) (draw_geometry d) (draw_material d)
          (draw_groupOrder d) (draw_z d) (draw_group d) s"
| "do_call (Unshift d) s =
     unshift (draw_props d) (draw_object d) (draw_geometry d) (draw_material d)
          (draw_groupOrder d) (draw_z d) (draw_group d) s"
| "do_call (Sort perm_opaque perm_transparent) s = sort' perm_opaque perm_transparent s"
| "do_call Finish s = finish s"

definition calls :: "call list \<Rightarrow> GLRenderList \<Rightarrow> GLRenderList" where
  "calls cs s = foldl (\<lambda>s c. do_call c s) s cs"

text \<open>What a frame that starts with \<^verbatim>\<open>init\<close> on the list \<open>s\<close> and then pushes the
  draws \<open>ds\<close> has built: one new item per draw, in the order of the draws.\<close>

definition after_pushes :: "GLRenderList \<Rightarrow> draw list \<Rightarrow> GLRenderList \<Rightarrow> bool" where
  "after_pushes s ds s' \<longleftrightarrow>
     renderItemsIndex s' = length ds
   \<and> renderItems s' = [length (store s)..<length (store s) + length ds]
   \<and> store s' = store s @ map (\<lambda>d. \<lparr>id' = Object3D_id (draw_object d),
                                object = Some (draw_object d),
                                geometry = Some (draw_geometry d),
                                material = Some (draw_material d),
                                program = draw_props d (Material_uuid (draw_material d)),
                                groupOrder = draw_groupOrder d,
                                renderOrder = Object3D_renderOrder (draw_object d),
                                z = draw_z d, group' = draw_group d\<rparr>) ds
   \<and> transparent s' = map fst (filter (\<lambda>(a, d). Material_transparent (draw_material d))
                           (zip [length (store s)..<length (store s) + length ds] ds))
   \<and> opaque s' = map fst (filter (\<lambda>(a, d). \<not> Material_transparent (draw_material d))
                           (zip [length (store s)..<length (store s) + length ds] ds))"

section \<open>Textures (\<^verbatim>\<open>GLTextures.cpp\<close>)\<close>

text \<open>Modelled from the spec: further enumerators of the OpenGL header, with their registry
  values, and the wrapping and filter constants of the engine's \<^verbatim>\<open>constants.hpp\<close>,
  which is not among the sources either.\<close>

definition GL_TEXTURE_2D :: GLuint where "GL_TEXTURE_2D = 3553"
definition GL_TEXTURE0 :: GLuint where "GL_TEXTURE0 = 33984"
definition GL_UNPACK_ALIGNMENT :: GLuint where "GL_UNPACK_ALIGNMENT = 3317"
definition GL_TEXTURE_MAG_FILTER :: GLuint where "GL_TEXTURE_MAG_FILTER = 10240"
definition GL_TEXTURE_MIN_FILTER :: GLuint where "GL_TEXTURE_MIN_FILTER = 10241"
definition GL_TEXTURE_WRAP_S :: GLuint where "GL_TEXTURE_WRAP_S = 10242"
definition GL_TEXTURE_WRAP_T :: GLuint where "GL_TEXTURE_WRAP_T = 10243"
definition GL_REPEAT :: int where "GL_REPEAT = 10497"
definition GL_CLAMP_TO_EDGE :: int where "GL_CLAMP_TO_EDGE = 33071"
definition GL_MIRRORED_REPEAT :: int where "GL_MIRRORED_REPEAT = 33648"
definition GL_NEAREST :: int where "GL_NEAREST = 9728"
definition GL_LINEAR :: int where "GL_LINEAR = 9729"
definition GL_NEAREST_MIPMAP_NEAREST :: int where "GL_NEAREST_MIPMAP_NEAREST = 9984"
definition GL_LINEAR_MIPMAP_NEAREST :: int where "GL_LINEAR_MIPMAP_NEAREST = 9985"
definition GL_NEAREST_MIPMAP_LINEAR :: int where "GL_NEAREST_MIPMAP_LINEAR = 9986"
definition GL_LINEAR_MIPMAP_LINEAR :: int where "GL_LINEAR_MIPMAP_LINEAR = 9987"

definition RepeatWrapping :: int where "RepeatWrapping = 1000"
definition ClampToEdgeWrapping :: int where "ClampToEdgeWrapping = 1001"
definition MirroredRepeatWrapping :: int where "MirroredRepeatWrapping = 1002"
definition NearestFilter :: int where "NearestFilter = 1003"
definition NearestMipmapNearestFilter :: int where "NearestMipmapNearestFilter = 1004"
definition NearestMipmapLinearFilter :: int where "NearestMipmapLinearFilter = 1005"
definition LinearFilter :: int where "LinearFilter = 1006"
definition LinearMipmapNearestFilter :: int where "LinearMipmapNearestFilter = 1007"
definition LinearMipmapLinearFilter :: int where "LinearMipmapLinearFilter = 1008"

text \<open>The two tables. \<^verbatim>\<open>operator[]\<close> of \<^verbatim>\<open>std::unordered_map<int, int>\<close> gives 0
  for a key the table does not hold.\<close>

definition wrappingToGL :: "int \<Rightarrow> int" where
  "wrappingToGL k =
    (if k = RepeatWrapping then GL_REPEAT
     else if k = ClampToEdgeWrapping then GL_CLAMP_TO_EDGE
     else if k = MirroredRepeatWrapping then GL_MIRRORED_REPEAT
     else 0)"

definition filterToGL :: "int \<Rightarrow> int" where
  "filterToGL k =
    (if k = NearestFilter then GL_NEAREST
     else if k = NearestMipmapNearestFilter then GL_NEAREST_MIPMAP_NEAREST
     else if k = NearestMipmapLinearFilter then GL_NEAREST_MIPMAP_LINEAR
     else if k = LinearFilter then GL_LINEAR
     else if k = LinearMipmapNearestFilter then GL_LINEAR_MIPMAP_NEAREST
     else if k = LinearMipmapLinearFilter then GL_LINEAR_MIPMAP_LINEAR
     else 0)"

text \<open>The members of \<^verbatim>\<open>Image\<close> and \<^verbatim>\<open>Texture\<close> that \<^verbatim>\<open>GLTextures.cpp\<close> reads or
  writes. \<open>Texture_version\<close> is what \<^verbatim>\<open>texture.version()\<close> returns,
  \<open>Texture_onUpdate\<close> says whether the optional callback is set, and
  \<open>Texture_disposeListener\<close> whether the manager's listener is registered for the
  texture's dispose event.\<close>

record Image =
  Image_width :: nat
  Image_height :: nat
  Image_data :: "8 word list"

record Texture =
  Texture_uuid :: string
  Texture_image :: "Image option"
  Texture_mipmaps :: "Image list"
  Texture_format :: int
  Texture_type :: int
  Texture_wrapS :: int
  Texture_wrapT :: int
  Texture_magFilter :: int
  Texture_minFilter :: int
  Texture_generateMipmaps :: bool
  Texture_unpackAlignment :: int
  Texture_version :: nat
  Texture_onUpdate :: bool
  Texture_disposeListener :: bool

record TextureProperties =
  glTexture :: GLuint
  glInit :: bool
  version :: nat
  maxMipLevel :: int

text \<open>What the manager does to the outside, in the order it does it: the calls on the GL
  state wrapper and on OpenGL, and the texture's update callback.\<close>

datatype GLCall =
    ActiveTexture GLuint
  | BindTexture GLuint GLuint
  | PixelStorei GLuint int
  | TexParameteri GLuint GLuint int
  | TexImage2D GLuint int GLint nat nat GLuint GLuint "8 word list"
  | GenerateMipmap GLuint
  | GenTextures GLuint
  | DeleteTextures GLuint
  | OnUpdate string

text \<open>The manager's state: the texture table of \<^verbatim>\<open>properties\<close>, the counter
  \<^verbatim>\<open>info.memory.textures\<close>, the calls made so far, the lines written to
  \<^verbatim>\<open>std::cerr\<close>, and the next texture name \<^verbatim>\<open>glGenTextures\<close> hands out.\<close>

record GLTextures =
  textureProperties :: "string \<rightharpoonup> TextureProperties"
  memory_textures :: int
  gl :: "GLCall list"
  cerr :: "string list"
  next_name :: GLuint

text \<open>Modelled from the spec: the keyed table \<^verbatim>\<open>properties.textureProperties\<close> (class
  \<^verbatim>\<open>GLProperties\<close>, not among the sources). \<^verbatim>\<open>get\<close> gives a reference to the entry of
  an identity and makes a fresh entry, not initialised on the GPU, when the table has none;
  \<^verbatim>\<open>remove\<close> deletes the entry. A reference to an entry is its key: \<open>entry\<close> reads
  through it and \<open>set_entry\<close> writes through it.\<close>

definition fresh_TextureProperties :: TextureProperties where
  "fresh_TextureProperties = \<lparr>glTexture = 0, glInit = False, version = 0, maxMipLevel = 0\<rparr>"

definition get :: "string \<Rightarrow> GLTextures \<Rightarrow> GLTextures" where
  "get k st =
    (case textureProperties st k of
       Some p \<Rightarrow> st
     | None \<Rightarrow> st\<lparr>textureProperties := (textureProperties st)(k \<mapsto> fresh_TextureProperties)\<rparr>)"

definition entry :: "GLTextures \<Rightarrow> string \<Rightarrow> TextureProperties" where
  "entry st k = (case textureProperties st k of Some p \<Rightarrow> p | None \<Rightarrow> fresh_TextureProperties)"

definition set_entry :: "string \<Rightarrow> (TextureProperties \<Rightarrow> TextureProperties) \<Rightarrow> GLTextures \<Rightarrow> GLTextures" where
  "set_entry k f st = st\<lparr>textureProperties := (textureProperties st)(k \<mapsto> f (entry st k))\<rparr>"

definition remove :: "string \<Rightarrow> GLTextures \<Rightarrow> GLTextures" where
  "remove k st = st\<lparr>textureProperties := (textureProperties st)(k := None)\<rparr>"

definition issue :: "GLCall list \<Rightarrow> GLTextures \<Rightarrow> GLTextures" where
  "issue cs st = st\<lparr>gl := gl st @ cs\<rparr>"

definition textureNeedsGenerateMipmaps :: "Texture \<Rightarrow> bool" where
  "textureNeedsGenerateMipmaps texture \<longleftrightarrow>
     Texture_generateMipmaps texture
     \<and> Texture_minFilter texture \<noteq> NearestFilter \<and> Texture_minFilter texture \<noteq> LinearFilter"

text \<open>\<^verbatim>\<open>(int) std::log2(n)\<close> for a positive \<open>n\<close>; the conversion is undefined for
  \<open>n = 0\<close>, where the model gives 0.\<close>

fun log2_floor :: "nat \<Rightarrow> int" where
  "log2_floor n = (if n < 2 then 0 else 1 + log2_floor (n div 2))"

declare log2_floor.simps [simp del]

definition generateMipmap :: "GLuint \<Rightarrow> Texture \<Rightarrow> nat \<Rightarrow> nat \<Rightarrow> GLTextures \<Rightarrow> GLTextures" where
  "generateMipmap target texture width height st =
    (let st = issue [GenerateMipmap target] st;
         st = get (Texture_uuid texture) st
     in set_entry (Texture_uuid texture)
          (\<lambda>p. p\<lparr>maxMipLevel := log2_floor (max width height)\<rparr>) st)"

definition setTextureParameters :: "GLuint \<Rightarrow> Texture \<Rightarrow> GLTextures \<Rightarrow> GLTextures" where
  "setTextureParameters textureType texture st =
    issue [TexParameteri textureType GL_TEXTURE_WRAP_S (wrappingToGL (Texture_wrapS texture)),
           TexParameteri textureType GL_TEXTURE_WRAP_T (wrappingToGL (Texture_wrapT texture)),
           TexParameteri textureType GL_TEXTURE_MAG_FILTER (filterToGL (Texture_magFilter texture)),
           TexParameteri textureType GL_TEXTURE_MIN_FILTER (filterToGL (Texture_minFilter texture))]
      st"

text \<open>\<^verbatim>\<open>initTexture\<close>; \<open>tp\<close> is the reference \<^verbatim>\<open>textureProperties\<close>.\<close>

definition initTexture :: "string \<Rightarrow> Texture \<Rightarrow> GLTextures \<Rightarrow> Texture \<times> GLTextures" where
  "initTexture tp texture st =
    (if \<not> glInit (entry st tp) then
       (let st = set_entry tp (\<lambda>p. p\<lparr>glInit := True\<rparr>) st;
            texture = texture\<lparr>Texture_disposeListener := True\<rparr>;
            name = next_name st;
            st = issue [GenTextures name] (st\<lparr>next_name := name + 1\<rparr>);
            st = set_entry tp (\<lambda>p. p\<lparr>glTexture := name\<rparr>) st;
            st = st\<lparr>memory_textures := memory_textures st + 1\<rparr>
        in (texture, st))
     else (texture, st))"

text \<open>\<^verbatim>\<open>uploadTexture\<close>. \<open>convert\<close> is the enum conversion of \<^verbatim>\<open>GLUtils.hpp\<close>, which
  is not among the sources, and is taken as a parameter.\<close>

definition uploadTexture ::
  "(int \<Rightarrow> GLuint) \<Rightarrow> string \<Rightarrow> Texture \<Rightarrow> GLuint \<Rightarrow> GLTextures \<Rightarrow> Texture \<times> GLTextures" where
  "uploadTexture convert tp texture slot st =
    (case Texture_image texture of
       None \<Rightarrow> (texture, st)
     | Some img \<Rightarrow>
       (let textureType = GL_TEXTURE_2D;
            (texture, st) = initTexture tp texture st;
            st = issue [ActiveTexture (GL_TEXTURE0 + slot)] st;
            st = issue [BindTexture textureType (glTexture (entry st tp))] st;
            st = issue [PixelStorei GL_UNPACK_ALIGNMENT (Texture_unpackAlignment texture)] st;
            glFormat = convert (Texture_format texture);
            glType = convert (Texture_type texture);
            glInternalFormat = getInternalFormat glFormat glType;
            st = setTextureParameters textureType texture st;
            mipmaps = Texture_mipmaps texture;
            (texture, st) =
              (if length mipmaps > 0 then
                 (let st = issue (map (\<lambda>i. TexImage2D GL_TEXTURE_2D (int i) glInternalFormat
                                          (Image_width (mipmaps ! i)) (Image_height (mipmaps ! i))
                                          glFormat glType (Image_data (mipmaps ! i)))
                                   [0..<length mipmaps]) st;
                      texture = texture\<lparr>Texture_generateMipmaps := False\<rparr>;
                      st = set_entry tp (\<lambda>p. p\<lparr>maxMipLevel := int (length mipmaps) - 1\<rparr>) st
                  in (texture, st))
               else
                 (let st = issue [TexImage2D GL_TEXTURE_2D 0 glInternalFormat
                                    (Image_width img) (Image_height img)
                                    glFormat glType (Image_data img)] st;
                      st = set_entry tp (\<lambda>p. p\<lparr>maxMipLevel := 0\<rparr>) st
                  in (texture, st)));
            st = (if textureNeedsGenerateMipmaps texture
                  then generateMipmap textureType texture (Image_width img) (Image_height img) st
                  else st);
            st = set_entry tp (\<lambda>p. p\<lparr>version := Texture_version texture\<rparr>) st;
            st = (if Texture_onUpdate texture then issue [OnUpdate (Texture_uuid texture)] st else st)
        in (texture, st)))"

definition deallocateTexture :: "Texture \<Rightarrow> GLTextures \<Rightarrow> GLTextures" where
  "deallocateTexture texture st =
    (let st = get (Texture_uuid texture) st;
         tp = Texture_uuid texture
     in if \<not> glInit (entry st tp) then st
        else (let st = issue [DeleteTextures (glTexture (entry st tp))] st
              in remove (Texture_uuid texture) st))"

definition setTexture2D ::
  "(int \<Rightarrow> GLuint) \<Rightarrow> Texture \<Rightarrow> GLuint \<Rightarrow> GLTextures \<Rightarrow> Texture \<times> GLTextures" where
  "setTexture2D convert texture slot st =
    (let st = get (Texture_uuid texture) st;
         tp = Texture_uuid texture;
         bind = (\<lambda>st. issue [BindTexture GL_TEXTURE_2D (glTexture (entry st tp))]
                         (issue [ActiveTexture (GL_TEXTURE0 + slot)] st))
     in if Texture_version texture > 0 \<and> version (entry st tp) \<noteq> Texture_version texture then
          (if Texture_image texture = None then
             (texture,
              bind (st\<lparr>cerr := cerr st
                    @ [''THREE.GLRenderer: Texture marked for update but image is undefined'']\<rparr>))
           else uploadTexture convert tp texture slot st)
        else (texture, bind st))"

text \<open>\<^verbatim>\<open>TextureEventListener::onEvent\<close>, for the dispose event of \<open>texture\<close>.\<close>

definition onEvent :: "Texture \<Rightarrow> GLTextures \<Rightarrow> Texture \<times> GLTextures" where
  "onEvent texture st =
    (let texture = texture\<lparr>Texture_disposeListener := False\<rparr>;
         st = deallocateTexture texture st;
         st = st\<lparr>memory_textures := memory_textures st - 1\<rparr>
     in (texture, st))"

text \<open>Observing an upload: the calls a step has added to the calls made before it, and
  whether a call hands pixel data to the GPU.\<close>

definition new_calls :: "GLTextures \<Rightarrow> GLTextures \<Rightarrow> GLCall list" where
  "new_calls st st' = drop (length (gl st)) (gl st')"

fun is_TexImage2D :: "GLCall \<Rightarrow> bool" where
  "is_TexImage2D (TexImage2D target level internalFormat width height glFormat glType pixels) = True"
| "is_TexImage2D c = False"

section \<open>Example inputs\<close>

text \<open>A render list as the constructor leaves it, and draws of objects that share one
  geometry, one material (transparent or not), one group order and one render order, and
  whose material has no program yet.\<close>

definition new_GLRenderList :: GLRenderList where
  "new_GLRenderList =
     \<lparr>store = [], renderItems = [], opaque = [], transparent = [], renderItemsIndex = 0\<rparr>"

definition no_program :: GLProperties where
  "no_program uuid = None"

definition example_object :: "int \<Rightarrow> Object3D" where
  "example_object i = \<lparr>Object3D_id = i, Object3D_renderOrder = 0\<rparr>"

definition example_geometry :: BufferGeometry where
  "example_geometry = \<lparr>BufferGeometry_id = 0\<rparr>"

definition example_material :: "bool \<Rightarrow> Material" where
  "example_material flag = \<lparr>Material_id = 7, Material_uuid = ''m'', Material_transparent = flag\<rparr>"

definition example_draw :: "int \<Rightarrow> real \<Rightarrow> bool \<Rightarrow> draw" where
  "example_draw i depth flag =
     \<lparr>draw_props = no_program,
      draw_object = example_object i,
      draw_geometry = example_geometry,
      draw_material = example_material flag,
      draw_groupOrder = 0,
      draw_z = depth,
      draw_group = None\<rparr>"

lemmas example_defs =
  new_GLRenderList_def no_program_def example_object_def example_geometry_def
  example_material_def example_draw_def

text \<open>The frame of the spec's example: three items at depths 1, 5 and 3, pushed in this
  order, all transparent or all opaque.\<close>

definition depth_frame :: "bool \<Rightarrow> GLRenderList" where
  "depth_frame flag =
     calls [Push (example_draw 1 1 flag), Push (example_draw 2 5 flag), Push (example_draw 3 3 flag)]
       (init new_GLRenderList)"



text \<open>Draws with transparent and opaque materials in turn.\<close>

definition mixed_draws :: "draw list" where
  "mixed_draws = [example_draw 1 1 True, example_draw 2 5 False, example_draw 3 3 True]"

text \<open>Two frames: the first pushes two items and finishes, the second pushes one.\<close>

definition first_frame :: GLRenderList where
  "first_frame =
     calls [Push (example_draw 1 1 False), Push (example_draw 2 5 False), Finish]
       (init new_GLRenderList)"

definition second_frame :: GLRenderList where
  "second_frame = calls [Push (example_draw 3 3 False)] (init first_frame)"

text \<open>Three opaque draws at one depth with three materials, of which the first is linked to
  program 2, the third to program 1 and the second to none. The comparator puts the first
  before the second and the second before the third by their materials, and the third
  before the first by their programs.\<close>

definition linked_programs :: GLProperties where
  "linked_programs uuid =
     (if uuid = ''m1'' then Some \<lparr>GLProgram_id = 2\<rparr>
      else if uuid = ''m3'' then Some \<lparr>GLProgram_id = 1\<rparr>
      else None)"

definition material_draw :: "int \<Rightarrow> string \<Rightarrow> draw" where
  "material_draw i uuid =
     \<lparr>draw_props = linked_programs,
      draw_object = example_object i,
      draw_geometry = example_geometry,
      draw_material = \<lparr>Material_id = i, Material_uuid = uuid, Material_transparent = False\<rparr>,
      draw_groupOrder = 0,
      draw_z = 1,
      draw_group = None\<rparr>"

definition mixed_programs :: GLRenderList where
  "mixed_programs =
     calls [Push (material_draw 1 ''m1''), Push (material_draw 2 ''m2''),
            Push (material_draw 3 ''m3'')]
       (init new_GLRenderList)"

text \<open>A texture with identity \<open>''t''\<close>, content version \<open>v\<close> and the image \<open>img\<close> (or
  none); a manager that has allocated this texture and last uploaded its version \<open>v\<close>;
  and a conversion of the engine's format and type enumerators that knows the RGBA format
  and the unsigned-byte type.\<close>

definition example_image :: Image where
  "example_image = \<lparr>Image_width = 1, Image_height = 1, Image_data = [255, 255, 255, 255]\<rparr>"

definition example_texture :: "nat \<Rightarrow> Image option \<Rightarrow> Texture" where
  "example_texture v img =
     \<lparr>Texture_uuid = ''t'', Texture_image = img, Texture_mipmaps = [],
      Texture_format = 1023, Texture_type = 1009,
      Texture_wrapS = ClampToEdgeWrapping, Texture_wrapT = ClampToEdgeWrapping,
      Texture_magFilter = LinearFilter, Texture_minFilter = LinearMipmapLinearFilter,
      Texture_generateMipmaps = True, Texture_unpackAlignment = 4,
      Texture_version = v, Texture_onUpdate = False, Texture_disposeListener = True\<rparr>"

definition uploaded_at :: "nat \<Rightarrow> GLTextures" where
  "uploaded_at v =
     \<lparr>textureProperties =
        [''t'' \<mapsto> \<lparr>glTexture = 1, glInit = True, version = v, maxMipLevel = 0\<rparr>],
      memory_textures = 1, gl = [], cerr = [], next_name = 2\<rparr>"

definition example_convert :: "int \<Rightarrow> GLuint" where
  "example_convert k = (if k = 1023 then 6408 else if k = 1009 then 5121 else 0)"

lemmas texture_example_defs =
  example_image_def example_texture_def uploaded_at_def example_convert_def

section \<open>The stable sort\<close>

lemma length_insert_stable: "length (insert_stable cmp x ys) = Suc (length ys)"
  by (induction ys) simp_all

lemma set_insert_stable: "set (insert_stable cmp x ys) = insert x (set ys)"
  by (induction ys) auto

lemma insertion_sort_Nil: "insertion_sort cmp [] = []"
  by (simp add: insertion_sort_def)

lemma insertion_sort_Cons: "insertion_sort cmp (x # xs) = insert_stable cmp x (insertion_sort cmp xs)"
  by (simp add: insertion_sort_def)

lemma length_insertion_sort: "length (insertion_sort cmp xs) = length xs"
  by (induction xs) (simp_all add: insertion_sort_Nil insertion_sort_Cons length_insert_stable)

lemma set_insertion_sort: "set (insertion_sort cmp xs) = set xs"
  by (induction xs) (simp_all add: insertion_sort_Nil insertion_sort_Cons set_insert_stable)

lemma insertion_sort_short: "length xs \<le> 1 \<Longrightarrow> insertion_sort cmp xs = xs"
  by (cases xs) (simp_all add: insertion_sort_Nil insertion_sort_Cons)






text \<open>A strict weak order is asymmetric, and its "not before" is transitive; whether a
  comparator is one on a list depends on the elements of the list only.\<close>

lemma strict_weak_order_asym:
  "strict_weak_order cmp xs \<Longrightarrow> \<forall>a\<in>set xs. \<forall>b\<in>set xs. cmp a b \<longrightarrow> \<not> cmp b a"
  unfolding strict_weak_order_def by blast



text \<open>The order the library leaves a list in is a permutation of the list.\<close>

lemma length_arrange: "length (arrange perm xs) = length xs"
proof (cases "sort perm = [0..<length xs]")
  case True
  then have "length perm = length xs"
    by (metis length_sort length_upt minus_nat.diff_0)
  with True show ?thesis by (simp add: arrange_def)
next
  case False
  then show ?thesis by (simp add: arrange_def)
qed

lemma set_arrange: "set (arrange perm xs) = set xs"
proof (cases "sort perm = [0..<length xs]")
  case True
  then have "set perm = {0..<length xs}"
    by (metis set_sort set_upt)
  then have "set (map ((!) xs) perm) = set xs"
    using nth_image [of "length xs" xs] by simp
  with True show ?thesis by (simp add: arrange_def)
next
  case False
  then show ?thesis by (simp add: arrange_def)
qed

text \<open>\<^verbatim>\<open>std::stable_sort\<close>: a permutation in any case, and the sorted list where the
  comparator is a strict weak order.\<close>

lemma length_stable_sort: "length (stable_sort perm cmp xs) = length xs"
  by (simp add: stable_sort_def length_insertion_sort length_arrange)

lemma set_stable_sort: "set (stable_sort perm cmp xs) = set xs"
  by (simp add: stable_sort_def set_insertion_sort set_arrange)


section \<open>The comparators\<close>

lemma reversePainterSortStable_eq: "reversePainterSortStable a b = painterSortStable a b"
  by (simp add: reversePainterSortStable_def painterSortStable_def)

lemma painterSortStable_asym: "painterSortStable a b \<Longrightarrow> \<not> painterSortStable b a"
  by (auto simp: painterSortStable_def split: if_splits)


text \<open>On items that all have a program, or of which none has one, "not before" is
  transitive: the comparator is then the lexicographic order of the six keys.\<close>

lemma painterSortStable_negtrans:
  assumes "(program a \<noteq> None \<and> program b \<noteq> None \<and> program c \<noteq> None)
           \<or> (program a = None \<and> program b = None \<and> program c = None)"
    and "\<not> painterSortStable b a" and "\<not> painterSortStable c b"
  shows "\<not> painterSortStable c a"
  using assms by (auto simp: painterSortStable_def split: if_splits)

lemma painterSortStable_irrefl: "\<not> painterSortStable a a"
  by (simp add: painterSortStable_def)

lemma painterSortStable_trans:
  assumes "(program a \<noteq> None \<and> program b \<noteq> None \<and> program c \<noteq> None)
           \<or> (program a = None \<and> program b = None \<and> program c = None)"
    and "painterSortStable a b" and "painterSortStable b c"
  shows "painterSortStable a c"
  using assms by (auto simp: painterSortStable_def split: if_splits)

text \<open>So the comparator is a strict weak order on the pointers of a bucket whose items
  all have a program, and on those of a bucket none of whose items has one.\<close>

lemma painterSortStable_strict_weak_order:
  assumes "(\<forall>a\<in>set xs. program (st ! a) \<noteq> None) \<or> (\<forall>a\<in>set xs. program (st ! a) = None)"
  shows "strict_weak_order (\<lambda>a b. painterSortStable (st ! a) (st ! b)) xs"
proof -
  have uni: "(program (st ! a) \<noteq> None \<and> program (st ! b) \<noteq> None \<and> program (st ! c) \<noteq> None)
           \<or> (program (st ! a) = None \<and> program (st ! b) = None \<and> program (st ! c) = None)"
    if "a \<in> set xs" "b \<in> set xs" "c \<in> set xs" for a b c
    using assms that by blast
  have t: "painterSortStable (st ! a) (st ! c)"
    if "a \<in> set xs" "b \<in> set xs" "c \<in> set xs"
      "painterSortStable (st ! a) (st ! b)" "painterSortStable (st ! b) (st ! c)" for a b c
    using painterSortStable_trans [OF uni [OF that(1,2,3)] that(4,5)] .
  have n: "\<not> painterSortStable (st ! c) (st ! a)"
    if "a \<in> set xs" "b \<in> set xs" "c \<in> set xs"
      "\<not> painterSortStable (st ! b) (st ! a)" "\<not> painterSortStable (st ! c) (st ! b)" for a b c
    using painterSortStable_negtrans [OF uni [OF that(1,2,3)] that(4,5)] .
  show ?thesis
    unfolding strict_weak_order_def
  proof (intro conjI ballI impI)
    fix a assume "a \<in> set xs"
    show "\<not> painterSortStable (st ! a) (st ! a)" by (rule painterSortStable_irrefl)
  next
    fix a b c
    assume "a \<in> set xs" "b \<in> set xs" "c \<in> set xs"
      "painterSortStable (st ! a) (st ! b)" "painterSortStable (st ! b) (st ! c)"
    then show "painterSortStable (st ! a) (st ! c)" by (rule t)
  next
    fix a b c
    assume h: "a \<in> set xs" "b \<in> set xs" "c \<in> set xs"
      "\<not> painterSortStable (st ! a) (st ! b) \<and> \<not> painterSortStable (st ! b) (st ! a)"
      "\<not> painterSortStable (st ! b) (st ! c) \<and> \<not> painterSortStable (st ! c) (st ! b)"
    show "\<not> painterSortStable (st ! a) (st ! c)"
      using n [OF h(3,2,1)] h(4,5) by blast
  next
    fix a b c
    assume h: "a \<in> set xs" "b \<in> set xs" "c \<in> set xs"
      "\<not> painterSortStable (st ! a) (st ! b) \<and> \<not> painterSortStable (st ! b) (st ! a)"
      "\<not> painterSortStable (st ! b) (st ! c) \<and> \<not> painterSortStable (st ! c) (st ! b)"
    show "\<not> painterSortStable (st ! c) (st ! a)"
      using n [OF h(1,2,3)] h(4,5) by blast
  qed
qed


section \<open>The operations of the render list, field by field\<close>

lemmas frame_defs =
  calls_def init_def push_def getNextRenderItem_def Let_def

lemmas sort_eval_defs =
  insertion_sort_def painterSortStable_def reversePainterSortStable_def

lemma sort'_buckets:
  "opaque (sort' po pt s)
     = (if 1 < length (opaque s)
        then stable_sort po (\<lambda>a b. painterSortStable (store s ! a) (store s ! b)) (opaque s)
        else opaque s)"
  "transparent (sort' po pt s)
     = (if 1 < length (transparent s)
        then stable_sort pt (\<lambda>a b. reversePainterSortStable (store s ! a) (store s ! b))
               (transparent s)
        else transparent s)"
  by (simp_all add: sort'_def)

lemma sort'_fields:
  "renderItemsIndex (sort' po pt s) = renderItemsIndex s"
  "store (sort' po pt s) = store s"
  "renderItems (sort' po pt s) = renderItems s"
  "length (opaque (sort' po pt s)) = length (opaque s)"
  "length (transparent (sort' po pt s)) = length (transparent s)"
  "set (opaque (sort' po pt s)) = set (opaque s)"
  "set (transparent (sort' po pt s)) = set (transparent s)"
  by (simp_all add: sort'_def length_stable_sort set_stable_sort)



text \<open>On buckets on which the comparators are strict weak orders \<^verbatim>\<open>sort\<close> is the insertion
  sort, whatever the library does elsewhere.\<close>

lemma sort'_strict_weak_order:
  assumes "strict_weak_order (\<lambda>a b. painterSortStable (store s ! a) (store s ! b)) (opaque s)"
    and "strict_weak_order (\<lambda>a b. reversePainterSortStable (store s ! a) (store s ! b)) (transparent s)"
  shows "opaque (sort' po pt s)
           = insertion_sort (\<lambda>a b. painterSortStable (store s ! a) (store s ! b)) (opaque s)"
    and "transparent (sort' po pt s)
           = insertion_sort (\<lambda>a b. reversePainterSortStable (store s ! a) (store s ! b)) (transparent s)"
  using assms by (simp_all add: sort'_buckets stable_sort_def insertion_sort_short)

lemma uniform_none_strict_weak_order:
  assumes "\<forall>a\<in>set (opaque s) \<union> set (transparent s). program (store s ! a) = None"
  shows "strict_weak_order (\<lambda>a b. painterSortStable (store s ! a) (store s ! b)) (opaque s)"
    and "strict_weak_order (\<lambda>a b. reversePainterSortStable (store s ! a) (store s ! b)) (transparent s)"
proof -
  show "strict_weak_order (\<lambda>a b. painterSortStable (store s ! a) (store s ! b)) (opaque s)"
    using assms by (intro painterSortStable_strict_weak_order) blast
  have "strict_weak_order (\<lambda>a b. painterSortStable (store s ! a) (store s ! b)) (transparent s)"
    using assms by (intro painterSortStable_strict_weak_order) blast
  then show "strict_weak_order (\<lambda>a b. reversePainterSortStable (store s ! a) (store s ! b)) (transparent s)"
    by (simp add: reversePainterSortStable_eq)
qed





lemma finish_loop_done: "il \<le> i \<Longrightarrow> finish_loop i il s = s"
  by (subst finish_loop.simps) simp

lemma finish_loop_fields:
  "renderItemsIndex (finish_loop i il s) = renderItemsIndex s
   \<and> renderItems (finish_loop i il s) = renderItems s
   \<and> opaque (finish_loop i il s) = opaque s
   \<and> transparent (finish_loop i il s) = transparent s
   \<and> length (store (finish_loop i il s)) = length (store s)"
proof (induction i il s rule: finish_loop.induct)
  case (1 i il s)
  show ?case
  proof (cases "i < il \<and> id' (store s ! (renderItems s ! i)) \<noteq> -1")
    case True
    then show ?thesis
      using "1.IH" [OF _ refl] by (subst (1 2 3 4 5) finish_loop.simps) (simp add: Let_def)
  next
    case False
    then show ?thesis
      by (subst (1 2 3 4 5) finish_loop.simps) (auto simp: Let_def)
  qed
qed

lemma finish_fields:
  "renderItemsIndex (finish s) = renderItemsIndex s"
  "renderItems (finish s) = renderItems s"
  "opaque (finish s) = opaque s"
  "transparent (finish s) = transparent s"
  "length (store (finish s)) = length (store s)"
  by (simp_all add: finish_def finish_loop_fields)

lemma getNextRenderItem_fresh:
  "length (renderItems s) \<le> renderItemsIndex s \<Longrightarrow>
   getNextRenderItem props obj geom mat gOrder depth grp s =
     (length (store s),
      s\<lparr>store := store s @ [\<lparr>id' = Object3D_id obj, object = Some obj, geometry = Some geom,
                                material = Some mat, program = props (Material_uuid mat),
                                groupOrder = gOrder, renderOrder = Object3D_renderOrder obj,
                                z = depth, group' = grp\<rparr>],
        renderItems := renderItems s @ [length (store s)],
        renderItemsIndex := renderItemsIndex s + 1\<rparr>)"
  by (simp add: getNextRenderItem_def Let_def)

lemma getNextRenderItem_buckets:
  "opaque (snd (getNextRenderItem props obj geom mat gOrder depth grp s)) = opaque s"
  "transparent (snd (getNextRenderItem props obj geom mat gOrder depth grp s)) = transparent s"
  "renderItemsIndex (snd (getNextRenderItem props obj geom mat gOrder depth grp s))
     = renderItemsIndex s + 1"
  by (simp_all add: getNextRenderItem_def Let_def)

lemma push_buckets:
  "Material_transparent mat \<Longrightarrow>
     transparent (push props obj geom mat gOrder depth grp s)
       = transparent s @ [fst (getNextRenderItem props obj geom mat gOrder depth grp s)]
     \<and> opaque (push props obj geom mat gOrder depth grp s) = opaque s"
  "\<not> Material_transparent mat \<Longrightarrow>
     opaque (push props obj geom mat gOrder depth grp s)
       = opaque s @ [fst (getNextRenderItem props obj geom mat gOrder depth grp s)]
     \<and> transparent (push props obj geom mat gOrder depth grp s) = transparent s"
  by (simp_all add: push_def split_beta getNextRenderItem_buckets)

lemma unshift_buckets:
  "Material_transparent mat \<Longrightarrow>
     transparent (unshift props obj geom mat gOrder depth grp s)
       = fst (getNextRenderItem props obj geom mat gOrder depth grp s) # transparent s
     \<and> opaque (unshift props obj geom mat gOrder depth grp s) = opaque s"
  "\<not> Material_transparent mat \<Longrightarrow>
     opaque (unshift props obj geom mat gOrder depth grp s)
       = fst (getNextRenderItem props obj geom mat gOrder depth grp s) # opaque s
     \<and> transparent (unshift props obj geom mat gOrder depth grp s) = transparent s"
  by (simp_all add: unshift_def split_beta getNextRenderItem_buckets)

lemma push_index:
  "renderItemsIndex (push props obj geom mat gOrder depth grp s) = renderItemsIndex s + 1"
  by (simp add: push_def split_beta getNextRenderItem_buckets)

lemma unshift_index:
  "renderItemsIndex (unshift props obj geom mat gOrder depth grp s) = renderItemsIndex s + 1"
  by (simp add: unshift_def split_beta getNextRenderItem_buckets)

lemma calls_Nil: "calls [] s = s"
  by (simp add: calls_def)

lemma calls_snoc: "calls (cs @ [c]) s = do_call c (calls cs s)"
  by (simp add: calls_def)

text \<open>After \<^verbatim>\<open>init\<close> the pool is empty, so every push of the frame makes a new item.\<close>

lemma after_pushes_init: "after_pushes s [] (init s)"
  by (simp add: after_pushes_def init_def)

lemma after_pushes_push:
  assumes "after_pushes s ds s'"
  shows "after_pushes s (ds @ [d]) (do_call (Push d) s')"
proof -
  from assms have idx: "length (renderItems s') \<le> renderItemsIndex s'"
    by (simp add: after_pushes_def)
  have len: "length (store s') = length (store s) + length ds"
    using assms by (simp add: after_pushes_def)
  have zip: "zip [length (store s)..<length (store s) + length (ds @ [d])] (ds @ [d])
      = zip [length (store s)..<length (store s) + length ds] ds @ [(length (store s) + length ds, d)]"
    by simp
  show ?thesis
    unfolding after_pushes_def zip
    using assms len
    by (simp add: after_pushes_def push_def getNextRenderItem_fresh [OF idx])
qed

lemma after_pushes_calls: "after_pushes s ds (calls (map Push ds) (init s))"
proof (induction ds rule: rev_induct)
  case Nil
  show ?case by (simp add: calls_Nil after_pushes_init)
next
  case (snoc d ds)
  then show ?case by (simp add: calls_snoc after_pushes_push del: do_call.simps)
qed

text \<open>From \<^verbatim>\<open>init\<close> on, the high-water mark is the size of the pool: no call of a frame
  finds a slot to take over, and \<^verbatim>\<open>finish\<close> finds no slot to clear.\<close>

lemma getNextRenderItem_pool:
  "length (renderItems s) \<le> renderItemsIndex s \<Longrightarrow>
   length (renderItems (snd (getNextRenderItem props obj geom mat gOrder depth grp s)))
     = length (renderItems s) + 1"
  by (simp add: getNextRenderItem_fresh)

lemma push_pool:
  "renderItems (push props obj geom mat gOrder depth grp s)
     = renderItems (snd (getNextRenderItem props obj geom mat gOrder depth grp s))"
  by (simp add: push_def split_beta)

lemma unshift_pool:
  "renderItems (unshift props obj geom mat gOrder depth grp s)
     = renderItems (snd (getNextRenderItem props obj geom mat gOrder depth grp s))"
  by (simp add: unshift_def split_beta)

lemma mark_stays_pool_size:
  "renderItemsIndex s = length (renderItems s) \<Longrightarrow>
   renderItemsIndex (calls cs s) = length (renderItems (calls cs s))"
proof (induction cs rule: rev_induct)
  case Nil
  then show ?case by (simp add: calls_Nil)
next
  case (snoc c cs)
  then have ih: "renderItemsIndex (calls cs s) = length (renderItems (calls cs s))" by simp
  show ?case
  proof (cases c)
    case (Push d)
    with ih show ?thesis
      by (simp add: calls_snoc push_index push_pool getNextRenderItem_pool)
  next
    case (Unshift d)
    with ih show ?thesis
      by (simp add: calls_snoc unshift_index unshift_pool getNextRenderItem_pool)
  next
    case (Sort po pt)
    with ih show ?thesis by (simp add: calls_snoc sort'_fields)
  next
    case Finish
    with ih show ?thesis by (simp add: calls_snoc finish_fields)
  qed
qed

lemma mark_is_pool_size:
  "renderItemsIndex (calls cs (init s)) = length (renderItems (calls cs (init s)))"
  by (rule mark_stays_pool_size) (simp add: init_def)


lemma finish_after_init: "finish (calls cs (init s)) = calls cs (init s)"
  by (simp add: finish_def finish_loop_done mark_is_pool_size)

text \<open>The loop of \<^verbatim>\<open>finish\<close> has work only on a list whose pool is longer than the mark.
  On the two-item pool of \<open>first_frame\<close> with the mark put back to 1 it clears the second
  item and leaves the first.\<close>

lemma finish_clears_behind_mark:
  "map id' (store (finish (first_frame\<lparr>renderItemsIndex := 1\<rparr>))) = [1, -1]
   \<and> map material (store (finish (first_frame\<lparr>renderItemsIndex := 1\<rparr>)))
       = [Some (example_material False), None]"
  by (simp add: first_frame_def example_defs calls_def init_def push_def getNextRenderItem_def
      finish_def finish_loop.simps clear_item_def Let_def)

text \<open>On the bucket of \<open>mixed_programs\<close> the comparator runs in a circle, so it is no strict
  weak order there, and the order of the bucket after \<^verbatim>\<open>sort\<close> is the library's: if the
  library leaves the second element first, a second \<^verbatim>\<open>sort\<close> changes the bucket
  again.\<close>

lemma mixed_programs_order_open:
  "opaque mixed_programs = [0, 1, 2]
   \<and> painterSortStable (store mixed_programs ! 0) (store mixed_programs ! 1)
   \<and> painterSortStable (store mixed_programs ! 1) (store mixed_programs ! 2)
   \<and> painterSortStable (store mixed_programs ! 2) (store mixed_programs ! 0)
   \<and> \<not> strict_weak_order (\<lambda>a b. painterSortStable (store mixed_programs ! a) (store mixed_programs ! b))
         (opaque mixed_programs)
   \<and> opaque (sort' [1, 2, 0] [] mixed_programs) = [1, 2, 0]
   \<and> opaque (sort' [1, 2, 0] [] (sort' [1, 2, 0] [] mixed_programs)) = [2, 0, 1]"
proof -
  let ?c = "\<lambda>a b. painterSortStable (store mixed_programs ! a) (store mixed_programs ! b)"
  have e: "opaque mixed_programs = [0, 1, 2]"
    by (simp add: mixed_programs_def material_draw_def linked_programs_def example_defs frame_defs)
  have c01: "?c 0 1"
    by (simp add: mixed_programs_def material_draw_def linked_programs_def example_defs
        frame_defs painterSortStable_def)
  have c12: "?c 1 2"
    by (simp add: mixed_programs_def material_draw_def linked_programs_def example_defs
        frame_defs painterSortStable_def)
  have c20: "?c 2 0"
    by (simp add: mixed_programs_def material_draw_def linked_programs_def example_defs
        frame_defs painterSortStable_def)
  have n: "\<not> strict_weak_order ?c xs" if mem: "0 \<in> set xs" "1 \<in> set xs" "2 \<in> set xs" for xs
  proof
    assume swo: "strict_weak_order ?c xs"
    then have "\<forall>a\<in>set xs. \<forall>b\<in>set xs. \<forall>c\<in>set xs. ?c a b \<longrightarrow> ?c b c \<longrightarrow> ?c a c"
      unfolding strict_weak_order_def by (elim conjE)
    with mem c01 c12 have "?c 0 2" by blast
    moreover have "\<not> ?c 0 2"
      using strict_weak_order_asym [OF swo] mem c20 by blast
    ultimately show False by blast
  qed
  have n1: "\<not> strict_weak_order ?c (opaque mixed_programs)"
    by (rule n) (simp_all add: e)
  have n2: "\<not> strict_weak_order ?c [1, 2, 0]"
    by (rule n) simp_all
  have "opaque (sort' [1, 2, 0] [] mixed_programs) = arrange [1, 2, 0] (opaque mixed_programs)"
    using n1 by (simp add: sort'_buckets stable_sort_def) (simp add: e)
  also have "\<dots> = [1, 2, 0]"
    by (simp add: e arrange_def)
  finally have s1: "opaque (sort' [1, 2, 0] [] mixed_programs) = [1, 2, 0]" .
  have "opaque (sort' [1, 2, 0] [] (sort' [1, 2, 0] [] mixed_programs))
      = stable_sort [1, 2, 0] ?c (opaque (sort' [1, 2, 0] [] mixed_programs))"
    by (subst sort'_buckets(1)) (simp add: sort'_fields e)
  also have "\<dots> = arrange [1, 2, 0] [1, 2, 0]"
    unfolding s1 using n2 by (simp only: stable_sort_def if_False)
  also have "\<dots> = [2, 0, 1]"
    by (simp add: arrange_def)
  finally show ?thesis using e c01 c12 c20 n1 s1 by blast
qed

section \<open>The texture manager, field by field\<close>

lemma issue_fields [simp]:
  "gl (issue cs st) = gl st @ cs"
  "cerr (issue cs st) = cerr st"
  "memory_textures (issue cs st) = memory_textures st"
  "next_name (issue cs st) = next_name st"
  "textureProperties (issue cs st) = textureProperties st"
  "entry (issue cs st) k = entry st k"
  by (simp_all add: issue_def entry_def)

lemma set_entry_fields [simp]:
  "gl (set_entry k f st) = gl st"
  "cerr (set_entry k f st) = cerr st"
  "memory_textures (set_entry k f st) = memory_textures st"
  "next_name (set_entry k f st) = next_name st"
  "entry (set_entry k f st) k' = (if k' = k then f (entry st k) else entry st k')"
  "textureProperties (set_entry k f st) = (textureProperties st)(k \<mapsto> f (entry st k))"
  by (simp_all add: set_entry_def entry_def)

lemma get_fields [simp]:
  "gl (get k st) = gl st"
  "cerr (get k st) = cerr st"
  "memory_textures (get k st) = memory_textures st"
  "next_name (get k st) = next_name st"
  "entry (get k st) k' = entry st k'"
  by (simp_all add: get_def entry_def split: option.splits)

lemma remove_fields [simp]:
  "gl (remove k st) = gl st"
  "cerr (remove k st) = cerr st"
  "memory_textures (remove k st) = memory_textures st"
  "next_name (remove k st) = next_name st"
  "textureProperties (remove k st) = (textureProperties st)(k := None)"
  by (simp_all add: remove_def)

lemma entry_simple_updates [simp]:
  "entry (st\<lparr>cerr := c\<rparr>) k = entry st k"
  "entry (st\<lparr>memory_textures := m\<rparr>) k = entry st k"
  "entry (st\<lparr>next_name := n\<rparr>) k = entry st k"
  "entry (st\<lparr>gl := g\<rparr>) k = entry st k"
  by (simp_all add: entry_def)

lemma initTexture_fields:
  "gl (snd (initTexture tp texture st))
     = gl st @ (if glInit (entry st tp) then [] else [GenTextures (next_name st)])"
  "memory_textures (snd (initTexture tp texture st))
     = memory_textures st + (if glInit (entry st tp) then 0 else 1)"
  "cerr (snd (initTexture tp texture st)) = cerr st"
  "glInit (entry (snd (initTexture tp texture st)) tp)"
  "entry (snd (initTexture tp texture st)) tp
     = (if glInit (entry st tp) then entry st tp
        else (entry st tp)\<lparr>glInit := True, glTexture := next_name st\<rparr>)"
  "k \<noteq> tp \<Longrightarrow> entry (snd (initTexture tp texture st)) k = entry st k"
  "fst (initTexture tp texture st)
     = (if glInit (entry st tp) then texture else texture\<lparr>Texture_disposeListener := True\<rparr>)"
  by (simp_all add: initTexture_def Let_def)

lemma generateMipmap_fields [simp]:
  "gl (generateMipmap target texture w h st) = gl st @ [GenerateMipmap target]"
  "cerr (generateMipmap target texture w h st) = cerr st"
  "memory_textures (generateMipmap target texture w h st) = memory_textures st"
  "glInit (entry (generateMipmap target texture w h st) k) = glInit (entry st k)"
  by (simp_all add: generateMipmap_def Let_def)

lemma setTextureParameters_fields [simp]:
  "cerr (setTextureParameters ty texture st) = cerr st"
  "memory_textures (setTextureParameters ty texture st) = memory_textures st"
  "entry (setTextureParameters ty texture st) k = entry st k"
  "\<exists>cs. gl (setTextureParameters ty texture st) = gl st @ cs \<and> \<not> list_ex is_TexImage2D cs"
  by (simp_all add: setTextureParameters_def)

lemma uploadTexture_None:
  "Texture_image texture = None \<Longrightarrow> uploadTexture convert tp texture slot st = (texture, st)"
  by (simp add: uploadTexture_def)

lemma uploadTexture_memory:
  "memory_textures (snd (uploadTexture convert tp texture slot st))
     = memory_textures st
       + (if Texture_image texture \<noteq> None \<and> \<not> glInit (entry st tp) then 1 else 0)"
  by (simp add: uploadTexture_def Let_def split_beta initTexture_fields split: option.splits)

lemma uploadTexture_glInit:
  "Texture_image texture \<noteq> None \<Longrightarrow>
   glInit (entry (snd (uploadTexture convert tp texture slot st)) tp)"
  by (auto simp add: uploadTexture_def Let_def split_beta initTexture_fields split: option.splits)

lemma uploadTexture_version:
  "Texture_image texture \<noteq> None \<Longrightarrow>
   version (entry (snd (uploadTexture convert tp texture slot st)) tp) = Texture_version texture"
  by (auto simp add: uploadTexture_def Let_def split_beta initTexture_fields split: option.splits)

lemma uploadTexture_cerr:
  "cerr (snd (uploadTexture convert tp texture slot st)) = cerr st"
  by (auto simp add: uploadTexture_def Let_def split_beta initTexture_fields split: option.splits)

lemma uploadTexture_uploads:
  "Texture_image texture \<noteq> None \<Longrightarrow>
   list_ex is_TexImage2D (new_calls st (snd (uploadTexture convert tp texture slot st)))"
  by (auto simp add: uploadTexture_def Let_def split_beta initTexture_fields new_calls_def
       setTextureParameters_def list_ex_iff split: option.splits)

lemma setTexture2D_bind_only:
  assumes "\<not> (0 < Texture_version texture
              \<and> version (entry st (Texture_uuid texture)) \<noteq> Texture_version texture
              \<and> Texture_image texture \<noteq> None)"
  shows "new_calls st (snd (setTexture2D convert texture slot st))
           = [ActiveTexture (GL_TEXTURE0 + slot),
              BindTexture GL_TEXTURE_2D (glTexture (entry st (Texture_uuid texture)))]"
    and "fst (setTexture2D convert texture slot st) = texture"
    and "memory_textures (snd (setTexture2D convert texture slot st)) = memory_textures st"
    and "entry (snd (setTexture2D convert texture slot st)) k = entry st k"
    and "cerr (snd (setTexture2D convert texture slot st))
           = cerr st @ (if 0 < Texture_version texture
                           \<and> version (entry st (Texture_uuid texture)) \<noteq> Texture_version texture
                        then [''THREE.GLRenderer: Texture marked for update but image is undefined'']
                        else [])"
  using assms by (auto simp add: setTexture2D_def Let_def new_calls_def)

lemma setTexture2D_upload:
  assumes "0 < Texture_version texture"
    "version (entry st (Texture_uuid texture)) \<noteq> Texture_version texture"
    "Texture_image texture \<noteq> None"
  shows "setTexture2D convert texture slot st
           = uploadTexture convert (Texture_uuid texture) texture slot (get (Texture_uuid texture) st)"
  using assms by (auto simp add: setTexture2D_def Let_def)

lemma new_calls_get: "new_calls (get k st) st' = new_calls st st'"
  by (simp add: new_calls_def)

lemma deallocateTexture_allocated:
  assumes "textureProperties st (Texture_uuid texture) = Some p" and "glInit p"
  shows "deallocateTexture texture st
           = remove (Texture_uuid texture) (issue [DeleteTextures (glTexture p)] st)"
  using assms by (simp add: deallocateTexture_def Let_def get_def entry_def issue_def)

lemma entry_absent: "textureProperties st k = None \<Longrightarrow> entry st k = fresh_TextureProperties"
  by (simp add: entry_def)

section \<open>Properties of the internal-format derivation\<close>

text \<open>Claim C6. \<^verbatim>\<open>getInternalFormat\<close> maps the nine pairs of a format among RED, RGB,
  RGBA and a type among FLOAT, HALF_FLOAT, UNSIGNED_BYTE to a sized internal format
  (which differs from the format given), with (RGBA, UNSIGNED_BYTE) going to
  \<^verbatim>\<open>GL_RGBA8\<close> and (RED, FLOAT) to \<^verbatim>\<open>GL_R32F\<close>; on every other pair it returns the
  format it was given.\<close>

theorem getInternalFormat_nine_pairs:
  "getInternalFormat GL_RED GL_FLOAT = GL_R32F
   \<and> getInternalFormat GL_RED GL_HALF_FLOAT = GL_R16F
   \<and> getInternalFormat GL_RED GL_UNSIGNED_BYTE = GL_R8
   \<and> getInternalFormat GL_RGB GL_FLOAT = GL_RGB32F
   \<and> getInternalFormat GL_RGB GL_HALF_FLOAT = GL_RGB16F
   \<and> getInternalFormat GL_RGB GL_UNSIGNED_BYTE = GL_RGB8
   \<and> getInternalFormat GL_RGBA GL_FLOAT = GL_RGBA32F
   \<and> getInternalFormat GL_RGBA GL_HALF_FLOAT = GL_RGBA16F
   \<and> getInternalFormat GL_RGBA GL_UNSIGNED_BYTE = GL_RGBA8
   \<and> card ({GL_RED, GL_RGB, GL_RGBA} \<times> {GL_FLOAT, GL_HALF_FLOAT, GL_UNSIGNED_BYTE}) = 9
   \<and> (\<forall>f t. f \<in> {GL_RED, GL_RGB, GL_RGBA} \<and> t \<in> {GL_FLOAT, GL_HALF_FLOAT, GL_UNSIGNED_BYTE}
          \<longrightarrow> getInternalFormat f t \<noteq> f)
   \<and> (\<forall>f t. \<not> (f \<in> {GL_RED, GL_RGB, GL_RGBA} \<and> t \<in> {GL_FLOAT, GL_HALF_FLOAT, GL_UNSIGNED_BYTE})
          \<longrightarrow> getInternalFormat f t = f)"
  by (simp add: getInternalFormat_def GL_defs card_cartesian_product)

theorem getInternalFormat_nine_pairs_witness:
  "GL_RGBA \<in> {GL_RED, GL_RGB, GL_RGBA} \<and> GL_UNSIGNED_BYTE \<in> {GL_FLOAT, GL_HALF_FLOAT, GL_UNSIGNED_BYTE}
   \<and> getInternalFormat GL_RGBA GL_UNSIGNED_BYTE \<noteq> GL_RGBA
   \<and> \<not> (GL_RGB8 \<in> {GL_RED, GL_RGB, GL_RGBA} \<and> GL_FLOAT \<in> {GL_FLOAT, GL_HALF_FLOAT, GL_UNSIGNED_BYTE})
   \<and> getInternalFormat GL_RGB8 GL_FLOAT = GL_RGB8"
  using getInternalFormat_nine_pairs by (simp add: GL_defs)

section \<open>Evaluating the render list on concrete inputs\<close>

lemmas eval_defs =
  calls_def init_def push_def getNextRenderItem_def finish_def finish_loop.simps
  clear_item_def Let_def

section \<open>Properties of the render list\<close>

text \<open>Claim C1. The claim asks that the comparator of the transparent bucket put a greater
  \<open>z\<close> before a smaller one, so that depths 1, 5, 3 pushed as transparent come out as
  5, 3, 1. The code does not do this: \<^verbatim>\<open>reversePainterSortStable\<close> is the same function
  as \<^verbatim>\<open>painterSortStable\<close>, and the frame with depths 1, 5, 3 sorts to 1, 3, 5 in the
  transparent bucket as it does in the opaque one. (None of the items has a program, so the
  comparator is a strict weak order on the bucket and the order does not depend on the
  library.)\<close>

theorem transparent_bucket_sorts_front_to_back:
  "(\<forall>a b. reversePainterSortStable a b = painterSortStable a b)
   \<and> map z (map ((!) (store (sort' po pt (depth_frame True))))
             (transparent (sort' po pt (depth_frame True))))
       = [1, 3, 5]
   \<and> map z (map ((!) (store (sort' po pt (depth_frame False))))
             (opaque (sort' po pt (depth_frame False))))
       = [1, 3, 5]"
proof -
  have noneT: "\<forall>a\<in>set (opaque (depth_frame True)) \<union> set (transparent (depth_frame True)).
      program (store (depth_frame True) ! a) = None"
    by (simp add: depth_frame_def example_defs frame_defs)
  have noneF: "\<forall>a\<in>set (opaque (depth_frame False)) \<union> set (transparent (depth_frame False)).
      program (store (depth_frame False) ! a) = None"
    by (simp add: depth_frame_def example_defs frame_defs)
  have "transparent (sort' po pt (depth_frame True))
      = insertion_sort (\<lambda>a b. reversePainterSortStable (store (depth_frame True) ! a)
                                 (store (depth_frame True) ! b)) (transparent (depth_frame True))"
    by (rule sort'_strict_weak_order [OF uniform_none_strict_weak_order [OF noneT]])
  also have "\<dots> = [0, 2, 1]"
    by (simp add: depth_frame_def example_defs frame_defs sort_eval_defs)
  finally have t: "map z (map ((!) (store (sort' po pt (depth_frame True))))
             (transparent (sort' po pt (depth_frame True)))) = [1, 3, 5]"
    by (simp add: sort'_fields) (simp add: depth_frame_def example_defs frame_defs)
  have "opaque (sort' po pt (depth_frame False))
      = insertion_sort (\<lambda>a b. painterSortStable (store (depth_frame False) ! a)
                                 (store (depth_frame False) ! b)) (opaque (depth_frame False))"
    by (rule sort'_strict_weak_order [OF uniform_none_strict_weak_order [OF noneF]])
  also have "\<dots> = [0, 2, 1]"
    by (simp add: depth_frame_def example_defs frame_defs sort_eval_defs)
  finally have o: "map z (map ((!) (store (sort' po pt (depth_frame False))))
             (opaque (sort' po pt (depth_frame False)))) = [1, 3, 5]"
    by (simp add: sort'_fields) (simp add: depth_frame_def example_defs frame_defs)
  show ?thesis
    using t o by (simp add: reversePainterSortStable_eq)
qed

text \<open>Claim C2. The claim asks that \<^verbatim>\<open>init\<close> reset the high-water mark and empty the two
  buckets while leaving the pool \<^verbatim>\<open>renderItems\<close> as it is. The code resets the mark and
  empties the buckets, and it empties the pool as well: after a frame of two pushes the pool
  holds two pointers, and after the next \<^verbatim>\<open>init\<close> none. The items themselves are not
  written to.\<close>

theorem init_empties_pool:
  "renderItemsIndex (init s) = 0 \<and> opaque (init s) = [] \<and> transparent (init s) = []
   \<and> renderItems (init s) = [] \<and> store (init s) = store s
   \<and> renderItems first_frame = [0, 1]
   \<and> renderItems (init first_frame) = []"
  by (simp add: first_frame_def example_defs eval_defs)

text \<open>Claim C3. The claim asks that, after a frame of \<open>P\<close> pushes and \<^verbatim>\<open>finish\<close>, then
  \<^verbatim>\<open>init\<close> and \<open>T < P\<close> pushes, \<^verbatim>\<open>finish\<close> leave \<open>P - T\<close> cleared slots from
  slot \<open>T\<close> on. In the code the pool of the second frame has exactly one slot per push of
  that frame, whatever the first frame did, and \<^verbatim>\<open>finish\<close> changes nothing, after these
  calls as after any calls that follow an \<^verbatim>\<open>init\<close>: with \<open>P = 2\<close> and \<open>T = 1\<close> the
  pool ends with the one slot of the item pushed, whose id is the object's, and no cleared
  slot.\<close>

theorem finish_after_init_clears_nothing:
  "length (renderItems (calls (map Push ds2) (init (finish (calls (map Push ds1) (init s))))))
     = length ds2
   \<and> finish (calls (map Push ds2) (init (finish (calls (map Push ds1) (init s)))))
       = calls (map Push ds2) (init (finish (calls (map Push ds1) (init s))))
   \<and> finish (calls cs (init s)) = calls cs (init s)
   \<and> length (renderItems first_frame) = 2
   \<and> renderItems (finish second_frame) = [2]
   \<and> id' (store (finish second_frame) ! 2) = 3"
proof -
  have "after_pushes (finish (calls (map Push ds1) (init s))) ds2
          (calls (map Push ds2) (init (finish (calls (map Push ds1) (init s)))))"
    by (rule after_pushes_calls)
  then have "length (renderItems (calls (map Push ds2) (init (finish (calls (map Push ds1) (init s))))))
      = length ds2"
    by (simp add: after_pushes_def)
  moreover have "length (renderItems first_frame) = 2
   \<and> renderItems (finish second_frame) = [2]
   \<and> id' (store (finish second_frame) ! 2) = 3"
    by (simp add: first_frame_def second_frame_def example_defs eval_defs)
  ultimately show ?thesis by (simp add: finish_after_init)
qed



text \<open>Claim C7. After \<^verbatim>\<open>init\<close> and the pushes of the draws \<open>ds\<close>, the two buckets
  together hold as many pointers as there were pushes; the pool holds one pointer per push,
  all different, the one at position \<open>k\<close> pointing to the item of the \<open>k\<close>-th draw; the
  transparent bucket holds, in the order of the pushes, the pointers of the draws whose
  material is flagged transparent, and the opaque bucket those of the others; no pointer is
  in both. One push, on any list, appends the pointer it got from \<^verbatim>\<open>getNextRenderItem\<close>
  to the transparent bucket if the material is flagged transparent and to the opaque bucket
  otherwise, and leaves the other bucket alone.\<close>

theorem pushes_fill_one_bucket_each:
  assumes "s' = calls (map Push ds) (init s)"
  shows "length (opaque s') + length (transparent s') = length ds
   \<and> length (renderItems s') = length ds
   \<and> distinct (renderItems s')
   \<and> transparent s' = map fst (filter (\<lambda>(a, d). Material_transparent (draw_material d))
                                (zip (renderItems s') ds))
   \<and> opaque s' = map fst (filter (\<lambda>(a, d). \<not> Material_transparent (draw_material d))
                           (zip (renderItems s') ds))
   \<and> (\<forall>(a, d) \<in> set (zip (renderItems s') ds).
         a < length (store s')
         \<and> object (store s' ! a) = Some (draw_object d)
         \<and> material (store s' ! a) = Some (draw_material d))
   \<and> set (opaque s') \<inter> set (transparent s') = {}
   \<and> (Material_transparent mat \<longrightarrow>
         transparent (push props obj geom mat gOrder depth grp t)
           = transparent t @ [fst (getNextRenderItem props obj geom mat gOrder depth grp t)]
         \<and> opaque (push props obj geom mat gOrder depth grp t) = opaque t)
   \<and> (\<not> Material_transparent mat \<longrightarrow>
         opaque (push props obj geom mat gOrder depth grp t)
           = opaque t @ [fst (getNextRenderItem props obj geom mat gOrder depth grp t)]
         \<and> transparent (push props obj geom mat gOrder depth grp t) = transparent t)"
proof -
  define n where "n = length (store s)"
  define zs where "zs = zip [n..<n + length ds] ds"
  have ap: "after_pushes s ds s'"
    unfolding assms by (rule after_pushes_calls)
  then have pool: "renderItems s' = [n..<n + length ds]"
    and tr: "transparent s' = map fst (filter (\<lambda>(a, d). Material_transparent (draw_material d)) zs)"
    and op: "opaque s' = map fst (filter (\<lambda>(a, d). \<not> Material_transparent (draw_material d)) zs)"
    and st: "store s' = store s @ map (\<lambda>d. \<lparr>id' = Object3D_id (draw_object d),
                                object = Some (draw_object d),
                                geometry = Some (draw_geometry d),
                                material = Some (draw_material d),
                                program = draw_props d (Material_uuid (draw_material d)),
                                groupOrder = draw_groupOrder d,
                                renderOrder = Object3D_renderOrder (draw_object d),
                                z = draw_z d, group' = draw_group d\<rparr>) ds"
    by (simp_all add: after_pushes_def n_def zs_def)
  have fst_zs: "map fst zs = [n..<n + length ds]"
    by (simp add: zs_def)
  then have dist: "distinct (map fst zs)"
    by simp
  have len_zs: "length zs = length ds"
    by (simp add: zs_def)
  have count: "length (opaque s') + length (transparent s') = length ds"
    using sum_length_filter_compl [of "\<lambda>(a, d). Material_transparent (draw_material d)" zs]
    by (simp add: tr op len_zs split_def add.commute)
  have disj: "set (opaque s') \<inter> set (transparent s') = {}"
  proof (rule ccontr)
    assume "set (opaque s') \<inter> set (transparent s') \<noteq> {}"
    then obtain a where "a \<in> set (opaque s')" "a \<in> set (transparent s')" by auto
    then obtain d d' where "(a, d) \<in> set zs" "\<not> Material_transparent (draw_material d)"
      "(a, d') \<in> set zs" "Material_transparent (draw_material d')"
      by (auto simp: tr op)
    with eq_key_imp_eq_value [OF dist] show False by blast
  qed
  have items: "\<forall>(a, d) \<in> set zs. a < length (store s')
         \<and> object (store s' ! a) = Some (draw_object d)
         \<and> material (store s' ! a) = Some (draw_material d)"
  proof (clarify)
    fix a d assume "(a, d) \<in> set zs"
    then obtain k where k: "k < length ds" "a = n + k" "d = ds ! k"
      by (auto simp: zs_def set_zip)
    then show "a < length (store s')
         \<and> object (store s' ! a) = Some (draw_object d)
         \<and> material (store s' ! a) = Some (draw_material d)"
      by (simp add: st n_def nth_append)
  qed
  show ?thesis
    using count disj items push_buckets [of mat props obj geom gOrder depth grp t]
    by (simp add: pool tr op zs_def)
qed

theorem pushes_fill_one_bucket_each_witness:
  "transparent (calls (map Push mixed_draws) (init new_GLRenderList)) = [0, 2]
   \<and> opaque (calls (map Push mixed_draws) (init new_GLRenderList)) = [1]
   \<and> (1, example_draw 2 5 False)
       \<in> set (zip (renderItems (calls (map Push mixed_draws) (init new_GLRenderList))) mixed_draws)
   \<and> material (store (calls (map Push mixed_draws) (init new_GLRenderList)) ! 1)
       = Some (example_material False)
   \<and> Material_transparent (example_material True)
   \<and> transparent (push no_program (example_object 4) example_geometry (example_material True) 0 2 None
                    new_GLRenderList) = [0]
   \<and> \<not> Material_transparent (example_material False)
   \<and> opaque (push no_program (example_object 4) example_geometry (example_material False) 0 2 None
                    new_GLRenderList) = [0]"
  using pushes_fill_one_bucket_each [OF refl, where ds = mixed_draws and s = new_GLRenderList
      and mat = "example_material True" and props = no_program and obj = "example_object 4"
      and geom = example_geometry and gOrder = 0 and depth = 2 and grp = None
      and t = new_GLRenderList]
    pushes_fill_one_bucket_each [OF refl, where ds = mixed_draws and s = new_GLRenderList
      and mat = "example_material False" and props = no_program and obj = "example_object 4"
      and geom = example_geometry and gOrder = 0 and depth = 2 and grp = None
      and t = new_GLRenderList]
  by (simp add: mixed_draws_def example_defs eval_defs)




text \<open>Claim C10. After \<^verbatim>\<open>init\<close> and any sequence of \<^verbatim>\<open>push\<close>, \<^verbatim>\<open>unshift\<close>,
  \<^verbatim>\<open>sort\<close> and \<^verbatim>\<open>finish\<close> calls, \<^verbatim>\<open>renderItemsIndex\<close> is the sum of the sizes of
  the two buckets. On any list, \<^verbatim>\<open>push\<close> and \<^verbatim>\<open>unshift\<close> increase
  \<^verbatim>\<open>renderItemsIndex\<close> by one and the sizes of the buckets together by one while one of
  the buckets stays as it is; \<^verbatim>\<open>sort\<close> and \<^verbatim>\<open>finish\<close> change neither
  \<^verbatim>\<open>renderItemsIndex\<close> nor the size of a bucket.\<close>

theorem renderItemsIndex_counts_buckets:
  "renderItemsIndex (calls cs (init s))
     = length (opaque (calls cs (init s))) + length (transparent (calls cs (init s)))
   \<and> renderItemsIndex (push props obj geom mat gOrder depth grp t) = renderItemsIndex t + 1
   \<and> length (opaque (push props obj geom mat gOrder depth grp t))
       + length (transparent (push props obj geom mat gOrder depth grp t))
       = length (opaque t) + length (transparent t) + 1
   \<and> (opaque (push props obj geom mat gOrder depth grp t) = opaque t
       \<or> transparent (push props obj geom mat gOrder depth grp t) = transparent t)
   \<and> renderItemsIndex (unshift props obj geom mat gOrder depth grp t) = renderItemsIndex t + 1
   \<and> length (opaque (unshift props obj geom mat gOrder depth grp t))
       + length (transparent (unshift props obj geom mat gOrder depth grp t))
       = length (opaque t) + length (transparent t) + 1
   \<and> (opaque (unshift props obj geom mat gOrder depth grp t) = opaque t
       \<or> transparent (unshift props obj geom mat gOrder depth grp t) = transparent t)
   \<and> renderItemsIndex (sort' po pt t) = renderItemsIndex t
   \<and> length (opaque (sort' po pt t)) = length (opaque t)
   \<and> length (transparent (sort' po pt t)) = length (transparent t)
   \<and> renderItemsIndex (finish t) = renderItemsIndex t
   \<and> opaque (finish t) = opaque t
   \<and> transparent (finish t) = transparent t"
proof -
  have run: "renderItemsIndex (calls cs (init s))
     = length (opaque (calls cs (init s))) + length (transparent (calls cs (init s)))"
  proof (induction cs rule: rev_induct)
    case Nil
    show ?case by (simp add: calls_Nil init_def)
  next
    case (snoc c cs)
    show ?case
    proof (cases c)
      case (Push d)
      with snoc show ?thesis
        using push_buckets [of "draw_material d"]
        by (cases "Material_transparent (draw_material d)") (simp_all add: calls_snoc push_index)
    next
      case (Unshift d)
      with snoc show ?thesis
        using unshift_buckets [of "draw_material d"]
        by (cases "Material_transparent (draw_material d)") (simp_all add: calls_snoc unshift_index)
    next
      case (Sort perm_opaque perm_transparent)
      with snoc show ?thesis by (simp add: calls_snoc sort'_fields)
    next
      case Finish
      with snoc show ?thesis by (simp add: calls_snoc finish_fields)
    qed
  qed
  have p: "length (opaque (push props obj geom mat gOrder depth grp t))
       + length (transparent (push props obj geom mat gOrder depth grp t))
       = length (opaque t) + length (transparent t) + 1
     \<and> (opaque (push props obj geom mat gOrder depth grp t) = opaque t
       \<or> transparent (push props obj geom mat gOrder depth grp t) = transparent t)"
    using push_buckets [of mat props obj geom gOrder depth grp t]
    by (cases "Material_transparent mat") simp_all
  have u: "length (opaque (unshift props obj geom mat gOrder depth grp t))
       + length (transparent (unshift props obj geom mat gOrder depth grp t))
       = length (opaque t) + length (transparent t) + 1
     \<and> (opaque (unshift props obj geom mat gOrder depth grp t) = opaque t
       \<or> transparent (unshift props obj geom mat gOrder depth grp t) = transparent t)"
    using unshift_buckets [of mat props obj geom gOrder depth grp t]
    by (cases "Material_transparent mat") simp_all
  show ?thesis
    using run p u by (simp add: push_index unshift_index sort'_fields finish_fields)
qed

section \<open>Properties of the texture manager\<close>

text \<open>Claim C5, as amended. \<^verbatim>\<open>setTexture2D\<close> uploads the texture (hands pixel data to
  the GPU) if and only if the texture's version is greater than 0, differs from the version
  stored in its entry, and an image is present; an upload stores the texture's version in
  the entry. A texture of version 0 is never uploaded. When the version is greater than 0
  and differs from the stored one but there is no image, one line is written to
  \<^verbatim>\<open>std::cerr\<close>, and the call selects the texture unit of the slot and binds the handle
  of the entry to it; the texture, the entry and the texture counter are as before.\<close>

theorem setTexture2D_uploads_iff:
  "list_ex is_TexImage2D (new_calls st (snd (setTexture2D convert texture slot st)))
     = (0 < Texture_version texture
        \<and> version (entry st (Texture_uuid texture)) \<noteq> Texture_version texture
        \<and> Texture_image texture \<noteq> None)
   \<and> (0 < Texture_version texture
        \<and> version (entry st (Texture_uuid texture)) \<noteq> Texture_version texture
        \<and> Texture_image texture \<noteq> None
       \<longrightarrow> version (entry (snd (setTexture2D convert texture slot st)) (Texture_uuid texture))
             = Texture_version texture)
   \<and> (Texture_version texture = 0
       \<longrightarrow> \<not> list_ex is_TexImage2D (new_calls st (snd (setTexture2D convert texture slot st))))
   \<and> (0 < Texture_version texture
        \<and> version (entry st (Texture_uuid texture)) \<noteq> Texture_version texture
        \<and> Texture_image texture = None
       \<longrightarrow> cerr (snd (setTexture2D convert texture slot st))
             = cerr st @ [''THREE.GLRenderer: Texture marked for update but image is undefined'']
           \<and> new_calls st (snd (setTexture2D convert texture slot st))
             = [ActiveTexture (GL_TEXTURE0 + slot),
                BindTexture GL_TEXTURE_2D (glTexture (entry st (Texture_uuid texture)))]
           \<and> fst (setTexture2D convert texture slot st) = texture
           \<and> entry (snd (setTexture2D convert texture slot st)) (Texture_uuid texture)
             = entry st (Texture_uuid texture)
           \<and> memory_textures (snd (setTexture2D convert texture slot st)) = memory_textures st)"
proof (cases "0 < Texture_version texture
        \<and> version (entry st (Texture_uuid texture)) \<noteq> Texture_version texture
        \<and> Texture_image texture \<noteq> None")
  case True
  then have eq: "setTexture2D convert texture slot st
      = uploadTexture convert (Texture_uuid texture) texture slot (get (Texture_uuid texture) st)"
    by (simp add: setTexture2D_upload)
  have "list_ex is_TexImage2D (new_calls st (snd (setTexture2D convert texture slot st)))"
    using True uploadTexture_uploads [of texture "get (Texture_uuid texture) st" convert
        "Texture_uuid texture" slot]
    by (simp add: eq new_calls_get)
  moreover have "version (entry (snd (setTexture2D convert texture slot st)) (Texture_uuid texture))
             = Texture_version texture"
    using True by (simp add: eq uploadTexture_version)
  ultimately show ?thesis using True by auto
next
  case False
  note b = setTexture2D_bind_only [OF False, of convert slot]
  have "\<not> list_ex is_TexImage2D (new_calls st (snd (setTexture2D convert texture slot st)))"
    by (simp add: b)
  then show ?thesis using False b by auto
qed

theorem setTexture2D_uploads_iff_witness:
  "0 < Texture_version (example_texture 1 None)
   \<and> version (entry (uploaded_at 0) (Texture_uuid (example_texture 1 None))) \<noteq> Texture_version (example_texture 1 None)
   \<and> Texture_image (example_texture 1 None) = None
   \<and> cerr (snd (setTexture2D example_convert (example_texture 1 None) 3 (uploaded_at 0)))
       = [''THREE.GLRenderer: Texture marked for update but image is undefined'']
   \<and> new_calls (uploaded_at 0) (snd (setTexture2D example_convert (example_texture 1 None) 3 (uploaded_at 0)))
       = [ActiveTexture 33987, BindTexture 3553 1]
   \<and> Texture_version (example_texture 0 (Some example_image)) = 0
   \<and> new_calls (uploaded_at 5) (snd (setTexture2D example_convert (example_texture 0 (Some example_image)) 3 (uploaded_at 5)))
       = [ActiveTexture 33987, BindTexture 3553 1]
   \<and> version (entry (snd (setTexture2D example_convert (example_texture 1 (Some example_image)) 3 (uploaded_at 0))) ''t'') = 1"
  using setTexture2D_uploads_iff [of "uploaded_at 0" example_convert "example_texture 1 None" 3]
    setTexture2D_uploads_iff [of "uploaded_at 5" example_convert "example_texture 0 (Some example_image)" 3]
    setTexture2D_uploads_iff [of "uploaded_at 0" example_convert "example_texture 1 (Some example_image)" 3]
  by (simp add: texture_example_defs entry_def setTexture2D_def get_def issue_def new_calls_def
      GL_TEXTURE0_def GL_TEXTURE_2D_def Let_def)

text \<open>The claim as stated fails for a texture whose version is below the stored one: the
  texture has version 1, the entry version 2, and the texture is uploaded.\<close>

theorem older_version_uploaded_counterexample:
  "Texture_version (example_texture 1 (Some example_image)) = 1
   \<and> version (entry (uploaded_at 2) (Texture_uuid (example_texture 1 (Some example_image)))) = 2
   \<and> list_ex is_TexImage2D
        (new_calls (uploaded_at 2)
           (snd (setTexture2D example_convert (example_texture 1 (Some example_image)) 3 (uploaded_at 2))))"
proof -
  have "list_ex is_TexImage2D
        (new_calls (get ''t'' (uploaded_at 2))
           (snd (uploadTexture example_convert ''t'' (example_texture 1 (Some example_image)) 3
                   (get ''t'' (uploaded_at 2)))))"
    by (rule uploadTexture_uploads) (simp add: example_texture_def)
  then show ?thesis
    by (simp add: setTexture2D_def Let_def new_calls_get)
      (simp add: example_texture_def uploaded_at_def entry_def get_def)
qed

text \<open>Claim C9. When the dispose event of a texture is handled and the entry of the texture
  is allocated, the texture counter goes down by one, the handle of the entry is deleted,
  the entry leaves the table and the listener leaves the texture. The identity is then as
  one never seen: its entry reads as a fresh one, \<^verbatim>\<open>initTexture\<close> allocates again
  (a new handle, the flag set, the listener registered, the counter up by one), and so
  does the next \<^verbatim>\<open>setTexture2D\<close> of the texture if it has an image and a version greater
  than 0, which uploads it.\<close>

theorem dispose_releases_texture:
  assumes "textureProperties st (Texture_uuid texture) = Some p" and "glInit p"
    and "onEvent texture st = (texture', st')"
    and "initTexture (Texture_uuid texture) texture' (get (Texture_uuid texture) st') = (texture'', st'')"
  shows "memory_textures st' = memory_textures st - 1
    \<and> gl st' = gl st @ [DeleteTextures (glTexture p)]
    \<and> textureProperties st' = (textureProperties st)(Texture_uuid texture := None)
    \<and> texture' = texture\<lparr>Texture_disposeListener := False\<rparr>
    \<and> entry st' (Texture_uuid texture) = fresh_TextureProperties
    \<and> glInit (entry st'' (Texture_uuid texture))
    \<and> memory_textures st'' = memory_textures st' + 1
    \<and> gl st'' = gl st' @ [GenTextures (next_name st')]
    \<and> Texture_disposeListener texture''
    \<and> (0 < Texture_version texture \<and> Texture_image texture \<noteq> None \<longrightarrow>
         glInit (entry (snd (setTexture2D convert texture' slot st')) (Texture_uuid texture))
         \<and> memory_textures (snd (setTexture2D convert texture' slot st')) = memory_textures st' + 1
         \<and> list_ex is_TexImage2D (new_calls st' (snd (setTexture2D convert texture' slot st'))))"
proof -
  let ?k = "Texture_uuid texture"
  have t': "texture' = texture\<lparr>Texture_disposeListener := False\<rparr>"
    and st': "st' = (remove ?k (issue [DeleteTextures (glTexture p)] st))
                      \<lparr>memory_textures := memory_textures st - 1\<rparr>"
    using assms(3) deallocateTexture_allocated [OF _ assms(2), of st "texture\<lparr>Texture_disposeListener := False\<rparr>"]
      assms(1)
    by (simp_all add: onEvent_def Let_def)
  have gone: "textureProperties st' ?k = None"
    by (simp add: st')
  then have fresh: "entry st' ?k = fresh_TextureProperties"
    by (rule entry_absent)
  then have notinit: "\<not> glInit (entry (get ?k st') ?k)"
    by (simp add: fresh_TextureProperties_def)
  have st'': "st'' = snd (initTexture ?k texture' (get ?k st'))"
    and t'': "texture'' = fst (initTexture ?k texture' (get ?k st'))"
    using assms(4) by simp_all
  have first: "memory_textures st' = memory_textures st - 1
    \<and> gl st' = gl st @ [DeleteTextures (glTexture p)]
    \<and> textureProperties st' = (textureProperties st)(?k := None)"
    by (simp add: st')
  have again: "glInit (entry st'' ?k) \<and> memory_textures st'' = memory_textures st' + 1
    \<and> gl st'' = gl st' @ [GenTextures (next_name st')] \<and> Texture_disposeListener texture''"
    using notinit by (simp add: st'' t'' initTexture_fields)
  have use: "glInit (entry (snd (setTexture2D convert texture' slot st')) ?k)
         \<and> memory_textures (snd (setTexture2D convert texture' slot st')) = memory_textures st' + 1
         \<and> list_ex is_TexImage2D (new_calls st' (snd (setTexture2D convert texture' slot st')))"
    if v: "0 < Texture_version texture" and i: "Texture_image texture \<noteq> None"
  proof -
    have k': "Texture_uuid texture' = ?k" and v': "0 < Texture_version texture'"
      and i': "Texture_image texture' \<noteq> None"
      using v i by (simp_all add: t')
    have stale: "version (entry st' (Texture_uuid texture')) \<noteq> Texture_version texture'"
      using v' fresh by (simp add: k' fresh_TextureProperties_def)
    have eq: "setTexture2D convert texture' slot st'
        = uploadTexture convert ?k texture' slot (get ?k st')"
      using setTexture2D_upload [OF v' stale i', of convert slot] by (simp add: k')
    show ?thesis
      using uploadTexture_glInit [OF i', of convert ?k slot "get ?k st'"]
        uploadTexture_uploads [OF i', of "get ?k st'" convert ?k slot]
        notinit i'
      by (simp add: eq uploadTexture_memory new_calls_get)
  qed
  show ?thesis
    using first t' fresh again use by blast
qed

theorem dispose_releases_texture_witness:
  "textureProperties (uploaded_at 1) (Texture_uuid (example_texture 1 (Some example_image)))
     = Some \<lparr>glTexture = 1, glInit = True, version = 1, maxMipLevel = 0\<rparr>
   \<and> glInit \<lparr>glTexture = 1, glInit = True, version = 1, maxMipLevel = 0\<rparr>
   \<and> memory_textures (uploaded_at 1) = 1
   \<and> memory_textures (snd (onEvent (example_texture 1 (Some example_image)) (uploaded_at 1))) = 0
   \<and> gl (snd (onEvent (example_texture 1 (Some example_image)) (uploaded_at 1))) = [DeleteTextures 1]
   \<and> textureProperties (snd (onEvent (example_texture 1 (Some example_image)) (uploaded_at 1))) ''t'' = None
   \<and> 0 < Texture_version (example_texture 1 (Some example_image))
   \<and> Texture_image (example_texture 1 (Some example_image)) \<noteq> None
   \<and> memory_textures
        (snd (setTexture2D example_convert
                (fst (onEvent (example_texture 1 (Some example_image)) (uploaded_at 1))) 0
                (snd (onEvent (example_texture 1 (Some example_image)) (uploaded_at 1))))) = 1"
proof -
  have h1: "textureProperties (uploaded_at 1) (Texture_uuid (example_texture 1 (Some example_image)))
     = Some \<lparr>glTexture = 1, glInit = True, version = 1, maxMipLevel = 0\<rparr>"
    by (simp add: uploaded_at_def example_texture_def)
  have h2: "glInit \<lparr>glTexture = 1, glInit = True, version = 1, maxMipLevel = 0\<rparr>"
    by simp
  have e: "memory_textures (uploaded_at 1) = 1" "gl (uploaded_at 1) = []"
    "textureProperties (uploaded_at 1) = [''t'' \<mapsto> \<lparr>glTexture = 1, glInit = True, version = 1, maxMipLevel = 0\<rparr>]"
    "0 < Texture_version (example_texture 1 (Some example_image))"
    "Texture_image (example_texture 1 (Some example_image)) \<noteq> None"
    "Texture_uuid (example_texture 1 (Some example_image)) = ''t''"
    by (simp_all add: uploaded_at_def example_texture_def)
  note t = dispose_releases_texture [OF h1 h2 surjective_pairing surjective_pairing,
      of example_convert 0]
  from t have c1: "memory_textures (snd (onEvent (example_texture 1 (Some example_image)) (uploaded_at 1)))
      = memory_textures (uploaded_at 1) - 1"
    and c2: "gl (snd (onEvent (example_texture 1 (Some example_image)) (uploaded_at 1)))
      = gl (uploaded_at 1) @ [DeleteTextures (glTexture \<lparr>glTexture = 1, glInit = True, version = 1, maxMipLevel = 0\<rparr>)]"
    and c3: "textureProperties (snd (onEvent (example_texture 1 (Some example_image)) (uploaded_at 1)))
      = (textureProperties (uploaded_at 1))(Texture_uuid (example_texture 1 (Some example_image)) := None)"
    by blast+
  from t e(4,5) have c4: "memory_textures
        (snd (setTexture2D example_convert
                (fst (onEvent (example_texture 1 (Some example_image)) (uploaded_at 1))) 0
                (snd (onEvent (example_texture 1 (Some example_image)) (uploaded_at 1)))))
      = memory_textures (snd (onEvent (example_texture 1 (Some example_image)) (uploaded_at 1))) + 1"
    by blast
  show ?thesis
    using h1 c1 c2 c3 c4 e by simp
qed

end
